theory Spec2Isabelle
  imports Complex_Main
begin

section \<open>Python values\<close>

text \<open>
  The dashboard works on whatever \<^verbatim>\<open>res.json()\<close> returns: a Python value built from
  \<^verbatim>\<open>None\<close>, booleans, integers, floats, strings, lists and dictionaries with string
  keys. The records the fetcher builds are dictionaries of the same kind, so one type
  serves for both.

  A Python \<^verbatim>\<open>str\<close> is a sequence of code points, and slicing counts code points;
  it is modelled as a list of code point numbers. \<open>lit\<close> embeds the ASCII literals of the
  source. A Python \<^verbatim>\<open>float\<close> is modelled as a real number: rounding to a double and the
  non-finite values are outside the model. A dictionary is an association list in
  insertion order, looked up with \<open>map_of\<close>.
\<close>

type_synonym pystr = "nat list"

definition lit :: "string \<Rightarrow> pystr" where
  "lit s = map of_char s"

datatype json =
    JNull
  | JBool bool
  | JInt int
  | JFloat real
  | JStr pystr
  | JList "json list"
  | JDict "(pystr \<times> json) list"

text \<open>The exception classes the modelled code can raise.\<close>

datatype pyexc =
    AttributeError
  | TypeError
  | ValueError
  | KeyError
  | IndexError
  | NotRenderableError
  | KeyboardInterrupt

text \<open>Truth value testing: \<^verbatim>\<open>if not data\<close>.\<close>

fun truthy :: "json \<Rightarrow> bool" where
  "truthy JNull = False"
| "truthy (JBool b) = b"
| "truthy (JInt n) = (n \<noteq> 0)"
| "truthy (JFloat r) = (r \<noteq> 0)"
| "truthy (JStr s) = (s \<noteq> [])"
| "truthy (JList xs) = (xs \<noteq> [])"
| "truthy (JDict kvs) = (kvs \<noteq> [])"

text \<open>
  \<^verbatim>\<open>for e in data\<close>: a list yields its elements, a dictionary its keys, a string its
  characters as one-character strings; nothing else is iterable.
\<close>

fun py_iter :: "json \<Rightarrow> pyexc + json list" where
  "py_iter (JList xs) = Inr xs"
| "py_iter (JDict kvs) = Inr (map (\<lambda>kv. JStr (fst kv)) kvs)"
| "py_iter (JStr s) = Inr (map (\<lambda>c. JStr [c]) s)"
| "py_iter _ = Inl TypeError"

text \<open>\<^verbatim>\<open>d.get(key, default)\<close>: only a dictionary has the method.\<close>

fun py_get :: "json \<Rightarrow> pystr \<Rightarrow> json \<Rightarrow> pyexc + json" where
  "py_get (JDict kvs) k dflt = Inr (case map_of kvs k of None \<Rightarrow> dflt | Some v \<Rightarrow> v)"
| "py_get _ k dflt = Inl AttributeError"

text \<open>
  \<^verbatim>\<open>float(v)\<close>. The conversion of a string is Python's own parser, which is not part of
  the repository: it is the parameter \<open>str2f\<close>, \<open>None\<close> where it raises
  \<^verbatim>\<open>ValueError\<close>.
\<close>

fun py_float :: "(pystr \<Rightarrow> real option) \<Rightarrow> json \<Rightarrow> pyexc + real" where
  "py_float str2f (JFloat r) = Inr r"
| "py_float str2f (JInt n) = Inr (of_int n)"
| "py_float str2f (JBool b) = Inr (if b then 1 else 0)"
| "py_float str2f (JStr s) = (case str2f s of None \<Rightarrow> Inl ValueError | Some r \<Rightarrow> Inr r)"
| "py_float str2f _ = Inl TypeError"

text \<open>\<^verbatim>\<open>int(x)\<close> of a float truncates towards zero.\<close>

definition py_int :: "real \<Rightarrow> int" where
  "py_int x = (if 0 \<le> x then \<lfloor>x\<rfloor> else \<lceil>x\<rceil>)"

text \<open>\<^verbatim>\<open>xs[-n:]\<close> and \<^verbatim>\<open>xs[:n]\<close> on a Python list.\<close>

definition last_n :: "nat \<Rightarrow> 'a list \<Rightarrow> 'a list" where
  "last_n n xs = drop (length xs - n) xs"

definition first_n :: "nat \<Rightarrow> 'a list \<Rightarrow> 'a list" where
  "first_n n xs = take n xs"

text \<open>\<^verbatim>\<open>xs[i]\<close> on a Python sequence: a negative index counts from the end.\<close>

definition py_index :: "'a list \<Rightarrow> int \<Rightarrow> pyexc + 'a" where
  "py_index xs i =
     (if 0 \<le> i \<and> i < int (length xs) then Inr (xs ! nat i)
      else if i < 0 \<and> - int (length xs) \<le> i then Inr (xs ! nat (int (length xs) + i))
      else Inl IndexError)"

text \<open>
  \<^verbatim>\<open>min(values)\<close> and \<^verbatim>\<open>max(values)\<close> on a non-empty list: one pass that keeps the
  first extreme item.
\<close>

fun py_min :: "real list \<Rightarrow> real" where
  "py_min [] = 0"
| "py_min (x # xs) = fold (\<lambda>v m. if v < m then v else m) xs x"

fun py_max :: "real list \<Rightarrow> real" where
  "py_max [] = 0"
| "py_max (x # xs) = fold (\<lambda>v m. if m < v then v else m) xs x"

text \<open>Running a loop body over a list, stopping at the first exception.\<close>

fun map_exc :: "('a \<Rightarrow> pyexc + 'b) \<Rightarrow> 'a list \<Rightarrow> pyexc + 'b list" where
  "map_exc f [] = Inr []"
| "map_exc f (x # xs) =
     (case f x of
        Inl e \<Rightarrow> Inl e
      | Inr y \<Rightarrow> (case map_exc f xs of Inl e \<Rightarrow> Inl e | Inr ys \<Rightarrow> Inr (y # ys)))"

text \<open>Sequencing: the first exception raised ends the computation.\<close>

definition bind_exc :: "pyexc + 'a \<Rightarrow> ('a \<Rightarrow> pyexc + 'b) \<Rightarrow> pyexc + 'b" where
  "bind_exc m f = (case m of Inl e \<Rightarrow> Inl e | Inr x \<Rightarrow> f x)"

text \<open>
  \<^verbatim>\<open>v[0]\<close>: the first item of a list, the first character of a string; a dictionary
  from JSON has string keys only, so the key \<^verbatim>\<open>0\<close> is never found; nothing else is
  subscriptable.
\<close>

fun py_first :: "json \<Rightarrow> pyexc + json" where
  "py_first (JList xs) = (case xs of [] \<Rightarrow> Inl IndexError | x # _ \<Rightarrow> Inr x)"
| "py_first (JStr s) = (case s of [] \<Rightarrow> Inl IndexError | c # _ \<Rightarrow> Inr (JStr [c]))"
| "py_first (JDict kvs) = Inl KeyError"
| "py_first _ = Inl TypeError"

text \<open>
  \<^verbatim>\<open>v[:n]\<close> and \<^verbatim>\<open>v[-n:]\<close> on a value: lists and strings can be sliced; a
  dictionary rejects the slice as a key (as \<^verbatim>\<open>TypeError\<close> before Python 3.12, as
  \<^verbatim>\<open>KeyError\<close> since), nothing else is subscriptable.
\<close>

fun py_slice_first :: "nat \<Rightarrow> json \<Rightarrow> pyexc + json" where
  "py_slice_first n (JList xs) = Inr (JList (first_n n xs))"
| "py_slice_first n (JStr s) = Inr (JStr (first_n n s))"
| "py_slice_first n _ = Inl TypeError"

fun py_slice_last :: "nat \<Rightarrow> json \<Rightarrow> pyexc + json" where
  "py_slice_last n (JList xs) = Inr (JList (last_n n xs))"
| "py_slice_last n (JStr s) = Inr (JStr (last_n n s))"
| "py_slice_last n _ = Inl TypeError"

text \<open>\<^verbatim>\<open>v + "..."\<close> with a string on the right: only a string can be on the left.\<close>

fun py_add_str :: "json \<Rightarrow> pystr \<Rightarrow> pyexc + json" where
  "py_add_str (JStr s) t = Inr (JStr (s @ t))"
| "py_add_str _ t = Inl TypeError"

section \<open>plotter.py\<close>

text \<open>
  \<^verbatim>\<open>_SPARK_CHARS\<close>: the eight block characters U+2581 to U+2588, low to high.
\<close>

definition SPARK_CHARS :: pystr where
  "SPARK_CHARS = [9601, 9602, 9603, 9604, 9605, 9606, 9607, 9608]"

text \<open>
  \<^verbatim>\<open>_normalize(values, length)\<close>; the caller \<open>sparkline\<close> leaves \<open>length\<close> at its
  default, \<^verbatim>\<open>len(_SPARK_CHARS)\<close>.
\<close>

definition normalize_values :: "real list \<Rightarrow> int \<Rightarrow> int list" where
  "normalize_values values len =
     (if values = [] then []
      else let vmin = py_min values; vmax = py_max values in
        if vmax = vmin then replicate (length values) (len div 2)
        else let rng = vmax - vmin in
          map (\<lambda>v. py_int ((v - vmin) / rng * of_int (len - 1))) values)"

text \<open>
  \<^verbatim>\<open>sparkline(values)\<close>: the string of \<^verbatim>\<open>_SPARK_CHARS[i]\<close> for each index; an index out
  of range would raise \<^verbatim>\<open>IndexError\<close>.
\<close>

definition sparkline :: "real list \<Rightarrow> pyexc + pystr" where
  "sparkline values =
     (let idxs = normalize_values values (int (length SPARK_CHARS))
      in map_exc (py_index SPARK_CHARS) idxs)"

text \<open>
  \<^verbatim>\<open>create_wind_speed_plot(wind_data)\<close>. The function returns one of two messages or a
  block of text lines; the block is kept here as the values the lines are formatted
  from: the sparkline, minimum, median, maximum and the two time labels.

  Parsing a time tag and printing it as hours and minutes is the standard library's
  \<^verbatim>\<open>strptime\<close>/\<^verbatim>\<open>strftime\<close>: the parameter \<open>hhmm\<close>, \<open>None\<close> where that raises.
\<close>

datatype plot =
    NoWindData
  | NoValidData
  | PlotBlock (sline: pystr) (vmin: real) (median: real) (vmax: real)
      (left_time: json) (right_time: json)

text \<open>
  The first \<^verbatim>\<open>try\<close> of the loop body, on a truthy \<^verbatim>\<open>time_tag\<close>. A string is parsed,
  or cut to eight characters when parsing raises. On a list, \<^verbatim>\<open>"T" in time_tag\<close>
  succeeds, \<^verbatim>\<open>split\<close> raises inside the \<^verbatim>\<open>try\<close> and the handler's slice succeeds. On
  anything else the handler's own \<^verbatim>\<open>time_tag[:8]\<close> raises.
\<close>

fun time_label :: "(pystr \<Rightarrow> pystr option) \<Rightarrow> json \<Rightarrow> pyexc + json" where
  "time_label hhmm (JStr s) =
     (case hhmm s of Some t \<Rightarrow> Inr (JStr t) | None \<Rightarrow> py_slice_first 8 (JStr s))"
| "time_label hhmm v = py_slice_first 8 v"

text \<open>The \<^verbatim>\<open>for entry in recent\<close> loop, threading \<^verbatim>\<open>times\<close> (here \<open>tms\<close>) and \<^verbatim>\<open>speeds\<close>.\<close>

fun plot_loop ::
  "(pystr \<Rightarrow> pystr option) \<Rightarrow> (pystr \<Rightarrow> real option) \<Rightarrow> json list \<Rightarrow>
   json list \<times> real list \<Rightarrow> pyexc + json list \<times> real list" where
  "plot_loop hhmm str2f [] acc = Inr acc"
| "plot_loop hhmm str2f (entry # recent) (tms, speeds) =
     (case py_get entry (lit ''time_tag'') JNull of
        Inl e \<Rightarrow> Inl e
      | Inr time_tag \<Rightarrow>
     (case py_get entry (lit ''speed'') JNull of
        Inl e \<Rightarrow> Inl e
      | Inr speed \<Rightarrow>
        if \<not> truthy time_tag \<or> speed = JNull then plot_loop hhmm str2f recent (tms, speeds)
        else
          (case time_label hhmm time_tag of
             Inl e \<Rightarrow> Inl e
           | Inr t \<Rightarrow>
             (case py_float str2f speed of
                Inl e \<Rightarrow> plot_loop hhmm str2f recent (tms @ [t], speeds)
              | Inr r \<Rightarrow> plot_loop hhmm str2f recent (tms @ [t], speeds @ [r])))))"

text \<open>The rest of the function, from \<^verbatim>\<open>if not speeds\<close> on.\<close>

definition plot_summary :: "json list \<Rightarrow> real list \<Rightarrow> pyexc + plot" where
  "plot_summary tms speeds =
     (if speeds = [] then Inr NoValidData
      else
        bind_exc (sparkline speeds) (\<lambda>sl.
        let mn = py_min speeds; mx = py_max speeds in
        bind_exc (if speeds \<noteq> [] then py_index speeds (int (length speeds) div 2) else Inr 0)
          (\<lambda>med.
        bind_exc (if tms \<noteq> [] then py_index tms 0 else Inr (JStr (lit ''''))) (\<lambda>lt.
        bind_exc (if tms \<noteq> [] then py_index tms (- 1) else Inr (JStr (lit ''''))) (\<lambda>rt.
        Inr (PlotBlock sl mn med mx lt rt))))))"

definition create_wind_speed_plot ::
  "(pystr \<Rightarrow> pystr option) \<Rightarrow> (pystr \<Rightarrow> real option) \<Rightarrow> json \<Rightarrow> pyexc + plot" where
  "create_wind_speed_plot hhmm str2f wind_data =
     (if \<not> truthy wind_data then Inr NoWindData
      else
        bind_exc (py_slice_last 30 wind_data) (\<lambda>recent.
        bind_exc (py_iter recent) (\<lambda>entries.
        bind_exc (plot_loop hhmm str2f entries ([], [])) (\<lambda>(tms, speeds).
        plot_summary tms speeds))))"

section \<open>data\_fetcher.py\<close>

text \<open>
  What the HTTP session answers to one request is an input of the model: either
  the request fails with a \<^verbatim>\<open>RequestException\<close> (no connection, a timeout, an error
  status, a body that is not JSON), or the body parses to a value.
  \<^verbatim>\<open>_make_request\<close> turns the failure into \<^verbatim>\<open>None\<close>; the warning it prints is not
  modelled.
\<close>

datatype response = Failed | Body json

definition make_request :: "response \<Rightarrow> json" where
  "make_request res = (case res of Failed \<Rightarrow> JNull | Body j \<Rightarrow> j)"

subsection \<open>NASA DONKI feeds\<close>

definition cme_event :: "json \<Rightarrow> pyexc + json" where
  "cme_event e =
     bind_exc (py_get e (lit ''startTime'') JNull) (\<lambda>startTime.
     bind_exc (py_get e (lit ''sourceLocation'') JNull) (\<lambda>sourceLocation.
     bind_exc (py_get e (lit ''catalog'') JNull) (\<lambda>catalog.
     bind_exc (py_get e (lit ''link'') (JStr (lit ''''))) (\<lambda>link.
     Inr (JDict [(lit ''startTime'', startTime),
                 (lit ''sourceLocation'', sourceLocation),
                 (lit ''catalog'', catalog),
                 (lit ''link'', link)])))))"

definition get_cme_events :: "response \<Rightarrow> pyexc + json" where
  "get_cme_events res =
     (let data = make_request res in
      if \<not> truthy data then Inr JNull
      else
        bind_exc (py_iter data) (\<lambda>es.
        bind_exc (map_exc cme_event es) (\<lambda>events.
        Inr (JList (first_n 5 events)))))"

definition flare_event :: "json \<Rightarrow> pyexc + json" where
  "flare_event f =
     bind_exc (py_get f (lit ''beginTime'') JNull) (\<lambda>beginTime.
     bind_exc (py_get f (lit ''peakTime'') JNull) (\<lambda>peakTime.
     bind_exc (py_get f (lit ''classType'') JNull) (\<lambda>classType.
     bind_exc (py_get f (lit ''sourceLocation'') JNull) (\<lambda>sourceLocation.
     bind_exc (py_get f (lit ''link'') (JStr (lit ''''))) (\<lambda>link.
     Inr (JDict [(lit ''beginTime'', beginTime),
                 (lit ''peakTime'', peakTime),
                 (lit ''classType'', classType),
                 (lit ''sourceLocation'', sourceLocation),
                 (lit ''link'', link)]))))))"

definition get_solar_flares :: "response \<Rightarrow> pyexc + json" where
  "get_solar_flares res =
     (let data = make_request res in
      if \<not> truthy data then Inr JNull
      else
        bind_exc (py_iter data) (\<lambda>fs.
        bind_exc (map_exc flare_event fs) (\<lambda>flares.
        Inr (JList (first_n 5 flares)))))"

text \<open>
  The storm loop body. \<^verbatim>\<open>s["allKpIndex"]\<close> is reached only after
  \<^verbatim>\<open>s.get("allKpIndex")\<close> returned a truthy value, so the key is present and the
  subscript gives that same value.
\<close>

definition storm_kp_index :: "json \<Rightarrow> pyexc + json" where
  "storm_kp_index s =
     bind_exc (py_get s (lit ''allKpIndex'') JNull) (\<lambda>allKp.
     if truthy allKp then
       bind_exc (py_first allKp) (\<lambda>k0. py_get k0 (lit ''kpIndex'') JNull)
     else Inr JNull)"

definition storm_event :: "json \<Rightarrow> pyexc + json" where
  "storm_event s =
     bind_exc (storm_kp_index s) (\<lambda>kp_index.
     bind_exc (py_get s (lit ''startTime'') JNull) (\<lambda>startTime.
     bind_exc (py_get s (lit ''link'') (JStr (lit ''''))) (\<lambda>link.
     Inr (JDict [(lit ''startTime'', startTime),
                 (lit ''kpIndex'', kp_index),
                 (lit ''link'', link)]))))"

definition get_geomagnetic_storms :: "response \<Rightarrow> pyexc + json" where
  "get_geomagnetic_storms res =
     (let data = make_request res in
      if \<not> truthy data then Inr JNull
      else
        bind_exc (py_iter data) (\<lambda>ss.
        bind_exc (map_exc storm_event ss) (\<lambda>storms.
        Inr (JList (first_n 5 storms)))))"

definition alert_event :: "json \<Rightarrow> pyexc + json" where
  "alert_event a =
     bind_exc (py_get a (lit ''messageType'') JNull) (\<lambda>messageType.
     bind_exc (py_get a (lit ''messageIssueTime'') JNull) (\<lambda>messageIssueTime.
     bind_exc (py_get a (lit ''messageBody'') (JStr (lit ''''))) (\<lambda>body.
     bind_exc (py_slice_first 200 body) (\<lambda>cut.
     bind_exc (py_add_str cut (lit ''...'')) (\<lambda>messageBody.
     Inr (JDict [(lit ''messageType'', messageType),
                 (lit ''messageIssueTime'', messageIssueTime),
                 (lit ''messageBody'', messageBody)]))))))"

definition get_space_weather_alerts :: "response \<Rightarrow> pyexc + json" where
  "get_space_weather_alerts res =
     (let data = make_request res in
      if \<not> truthy data then Inr JNull
      else
        bind_exc (py_slice_first 5 data) (\<lambda>head.
        bind_exc (py_iter head) (\<lambda>as.
        bind_exc (map_exc alert_event as) (\<lambda>alerts.
        Inr (JList alerts)))))"

subsection \<open>NOAA live feeds\<close>

text \<open>
  The body of the \<^verbatim>\<open>try\<close> in the wind loop: an exception, no sample (the speed is
  not positive), or the sample to append.
\<close>

definition wind_sample :: "(pystr \<Rightarrow> real option) \<Rightarrow> json \<Rightarrow> pyexc + json option" where
  "wind_sample str2f d =
     bind_exc (py_get d (lit ''proton_speed'') (JInt 0)) (\<lambda>ps.
     bind_exc (py_float str2f ps) (\<lambda>speed.
     bind_exc (py_get d (lit ''proton_density'') (JInt 0)) (\<lambda>pd.
     bind_exc (py_float str2f pd) (\<lambda>density.
     if speed > 0 then
       bind_exc (py_get d (lit ''time_tag'') JNull) (\<lambda>time_tag.
       Inr (Some (JDict [(lit ''time_tag'', time_tag),
                         (lit ''speed'', JFloat speed),
                         (lit ''density'', JFloat density)])))
     else Inr None))))"

text \<open>
  The loop: \<^verbatim>\<open>except Exception: continue\<close> drops the element whose body raised.
  Every class of \<open>pyexc\<close> but \<^verbatim>\<open>KeyboardInterrupt\<close> is an \<^verbatim>\<open>Exception\<close>.
\<close>

fun wind_loop :: "(pystr \<Rightarrow> real option) \<Rightarrow> json list \<Rightarrow> json list \<Rightarrow> pyexc + json list" where
  "wind_loop str2f [] result = Inr result"
| "wind_loop str2f (d # ds) result =
     (case wind_sample str2f d of
        Inl KeyboardInterrupt \<Rightarrow> Inl KeyboardInterrupt
      | Inl _ \<Rightarrow> wind_loop str2f ds result
      | Inr None \<Rightarrow> wind_loop str2f ds result
      | Inr (Some r) \<Rightarrow> wind_loop str2f ds (result @ [r]))"

definition get_solar_wind_data :: "(pystr \<Rightarrow> real option) \<Rightarrow> response \<Rightarrow> pyexc + json" where
  "get_solar_wind_data str2f res =
     (case make_request res of
        JList ds \<Rightarrow>
          bind_exc (wind_loop str2f ds []) (\<lambda>result.
          Inr (if result \<noteq> [] then JList (last_n 60 result) else JNull))
      | _ \<Rightarrow> Inr JNull)"

definition get_sunspot_data :: "response \<Rightarrow> pyexc + json" where
  "get_sunspot_data res = Inr (make_request res)"

definition get_geomagnetic_index :: "response \<Rightarrow> pyexc + json" where
  "get_geomagnetic_index res =
     (case make_request res of
        JList ds \<Rightarrow> Inr (if ds \<noteq> [] then JList (last_n 20 ds) else JNull)
      | _ \<Rightarrow> Inr JNull)"

definition get_solar_flux :: "response \<Rightarrow> pyexc + json" where
  "get_solar_flux res =
     (case make_request res of
        JList ds \<Rightarrow> Inr (if ds \<noteq> [] then JList (last_n 5 ds) else JNull)
      | _ \<Rightarrow> Inr JNull)"

section \<open>Vocabulary for stating the normalizer rules\<close>

text \<open>
  The definitions of this section are not taken from the source. They name what the
  rules of the normalizers talk about, so that the rules can be compared with the
  functions above.
\<close>

fun is_dict :: "json \<Rightarrow> bool" where
  "is_dict (JDict kvs) = True"
| "is_dict _ = False"

fun is_list :: "json \<Rightarrow> bool" where
  "is_list (JList xs) = True"
| "is_list _ = False"

text \<open>The value stored under a key of a JSON object, or a default when the key is missing.\<close>

fun field_or :: "json \<Rightarrow> pystr \<Rightarrow> json \<Rightarrow> json" where
  "field_or (JDict kvs) k dflt = (case map_of kvs k of None \<Rightarrow> dflt | Some v \<Rightarrow> v)"
| "field_or _ k dflt = dflt"


text \<open>
  Wind rule: an element qualifies when it is an object, both \<^verbatim>\<open>proton_speed\<close> and
  \<^verbatim>\<open>proton_density\<close> (0 when missing) coerce to a float, and the speed is positive.
\<close>

definition coerced :: "(pystr \<Rightarrow> real option) \<Rightarrow> json \<Rightarrow> pystr \<Rightarrow> real option" where
  "coerced str2f d k =
     (if is_dict d then
        (case py_float str2f (field_or d k (JInt 0)) of Inl _ \<Rightarrow> None | Inr r \<Rightarrow> Some r)
      else None)"

definition qualifying_sample :: "(pystr \<Rightarrow> real option) \<Rightarrow> json \<Rightarrow> json option" where
  "qualifying_sample str2f d =
     (case (coerced str2f d (lit ''proton_speed''), coerced str2f d (lit ''proton_density'')) of
        (Some speed, Some density) \<Rightarrow>
          if speed > 0 then
            Some (JDict [(lit ''time_tag'', field_or d (lit ''time_tag'') JNull),
                         (lit ''speed'', JFloat speed),
                         (lit ''density'', JFloat density)])
          else None
      | _ \<Rightarrow> None)"



definition example_str2f :: "pystr \<Rightarrow> real option" where
  "example_str2f =
     map_of [(lit ''400'', 400), (lit ''5'', 5), (lit ''-1'', - 1), (lit ''2'', 2), (lit ''1'', 1)]"


text \<open>
  Storm rule: the nested list \<^verbatim>\<open>allKpIndex\<close> of a storm object is absent, or a list
  that is empty or starts with an object.
\<close>

fun nested_kp_ok :: "json \<Rightarrow> bool" where
  "nested_kp_ok (JDict kvs) =
     (case map_of kvs (lit ''allKpIndex'') of
        None \<Rightarrow> True
      | Some (JList []) \<Rightarrow> True
      | Some (JList (k0 # _)) \<Rightarrow> is_dict k0
      | Some _ \<Rightarrow> False)"
| "nested_kp_ok _ = False"

fun nested_kp :: "json \<Rightarrow> json" where
  "nested_kp (JDict kvs) =
     (case map_of kvs (lit ''allKpIndex'') of
        Some (JList (k0 # _)) \<Rightarrow> field_or k0 (lit ''kpIndex'') JNull
      | _ \<Rightarrow> JNull)"
| "nested_kp _ = JNull"

section \<open>dashboard.py\<close>

subsection \<open>Further Python operations used by the panels\<close>

text \<open>\<^verbatim>\<open>v[i]\<close> with an integer index, on any value.\<close>

fun py_item :: "json \<Rightarrow> int \<Rightarrow> pyexc + json" where
  "py_item (JList xs) i = py_index xs i"
| "py_item (JStr s) i = bind_exc (py_index s i) (\<lambda>c. Inr (JStr [c]))"
| "py_item (JDict kvs) i = Inl KeyError"
| "py_item _ i = Inl TypeError"

text \<open>\<^verbatim>\<open>len(v)\<close>.\<close>

fun py_len :: "json \<Rightarrow> pyexc + nat" where
  "py_len (JList xs) = Inr (length xs)"
| "py_len (JStr s) = Inr (length s)"
| "py_len (JDict kvs) = Inr (length kvs)"
| "py_len _ = Inl TypeError"

text \<open>
  The format specifications \<^verbatim>\<open>:.1f\<close> and \<^verbatim>\<open>:.2f\<close> in an f-string accept a float, an
  integer or a boolean; the result is kept as the number that is printed.
\<close>

fun py_format_f :: "json \<Rightarrow> pyexc + real" where
  "py_format_f (JFloat r) = Inr r"
| "py_format_f (JInt n) = Inr (of_int n)"
| "py_format_f (JBool b) = Inr (if b then 1 else 0)"
| "py_format_f (JStr s) = Inl ValueError"
| "py_format_f _ = Inl TypeError"

text \<open>
  \<^verbatim>\<open>acc + v\<close> inside \<^verbatim>\<open>sum\<close>, which starts from the integer 0: both sides must be
  numbers; the sum is an integer as long as no float took part.
\<close>

fun py_add_num :: "json \<Rightarrow> json \<Rightarrow> pyexc + json" where
  "py_add_num (JInt a) (JInt b) = Inr (JInt (a + b))"
| "py_add_num (JInt a) (JBool b) = Inr (JInt (a + (if b then 1 else 0)))"
| "py_add_num (JInt a) (JFloat y) = Inr (JFloat (of_int a + y))"
| "py_add_num (JFloat x) (JInt b) = Inr (JFloat (x + of_int b))"
| "py_add_num (JFloat x) (JBool b) = Inr (JFloat (x + (if b then 1 else 0)))"
| "py_add_num (JFloat x) (JFloat y) = Inr (JFloat (x + y))"
| "py_add_num _ _ = Inl TypeError"

subsection \<open>Panels\<close>

text \<open>
  What the rendering library is given is kept as data: a panel has a body, an
  optional title and a border style. A text body is kept as the values its f-string
  is formatted from. A table cell is a value passed as it is, the \<^verbatim>\<open>str\<close> of a value,
  or the link markup around a value. \<open>Placeholder\<close> is what a region of a fresh
  layout shows before its first update.
\<close>

datatype trend = Rising | Falling | Steady

datatype cell = Plain json | Shown json | Link json

datatype content =
    Placeholder
  | Title
  | Message string
  | WindText plot real real
  | KpText real string pystr
  | FluxText real real trend
  | SunspotText nat json
  | TableRows string "cell list list"
  | AlertLines "(json \<times> json) list"
  | LastUpdated pystr

datatype panel = Panel (body: content) (title: "string option") (border_style: string)

text \<open>
  \<^verbatim>\<open>Table.add_row\<close> of the rendering library accepts a string or \<^verbatim>\<open>None\<close> in a cell and
  raises \<^verbatim>\<open>NotRenderableError\<close> (an \<^verbatim>\<open>Exception\<close>) for any other plain value.
\<close>

fun renderable :: "cell \<Rightarrow> bool" where
  "renderable (Plain (JStr s)) = True"
| "renderable (Plain JNull) = True"
| "renderable (Plain _) = False"
| "renderable _ = True"

definition add_row :: "cell list list \<Rightarrow> cell list \<Rightarrow> pyexc + cell list list" where
  "add_row rows cells = (if list_all renderable cells then Inr (rows @ [cells])
      else Inl NotRenderableError)"

definition header :: panel where
  "header = Panel Title None ''bright_blue''"

text \<open>\<^verbatim>\<open>footer()\<close> reads the clock; the formatted reading is its argument.\<close>

definition footer :: "pystr \<Rightarrow> panel" where
  "footer now = Panel (LastUpdated now) None ''green''"

definition solar_wind_panel ::
  "(pystr \<Rightarrow> pystr option) \<Rightarrow> (pystr \<Rightarrow> real option) \<Rightarrow> json \<Rightarrow> pyexc + panel" where
  "solar_wind_panel hhmm str2f data =
     (if \<not> truthy data then
        Inr (Panel (Message ''No solar wind data available.'') (Some ''Solar Wind'') ''red'')
      else
        bind_exc (py_item data (- 1)) (\<lambda>latest.
        bind_exc (py_get latest (lit ''speed'') (JInt 0)) (\<lambda>speed.
        bind_exc (py_get latest (lit ''density'') (JInt 0)) (\<lambda>density.
        bind_exc (create_wind_speed_plot hhmm str2f data) (\<lambda>chart.
        bind_exc (py_format_f speed) (\<lambda>sp.
        bind_exc (py_format_f density) (\<lambda>dn.
        Inr (Panel (WindText chart sp dn) (Some ''Solar Wind (ACE)'') ''blue''))))))))"

definition geomagnetic_panel :: "(pystr \<Rightarrow> real option) \<Rightarrow> json \<Rightarrow> pyexc + panel" where
  "geomagnetic_panel str2f data =
     (if \<not> truthy data then
        Inr (Panel (Message ''No K-index data available.'') (Some ''Geomagnetic Activity'')
               ''yellow'')
      else
        bind_exc (py_item data (- 1)) (\<lambda>recent.
        bind_exc (py_get recent (lit ''k_index'') (JInt 0)) (\<lambda>k.
        bind_exc (py_float str2f k) (\<lambda>kp.
        let level = (if kp < 4 then ''Quiet'' else if kp < 6 then ''Active'' else ''Storm'');
            bar = replicate (nat (py_int kp)) 9608 @ replicate (nat (9 - py_int kp)) 9617
        in Inr (Panel (KpText kp level bar) (Some ''Geomagnetic K-Index'') ''yellow'')))))"

definition solar_flux_panel :: "(pystr \<Rightarrow> real option) \<Rightarrow> json \<Rightarrow> pyexc + panel" where
  "solar_flux_panel str2f data =
     (if \<not> truthy data then
        Inr (Panel (Message ''No solar flux data available.'') (Some ''Solar Flux'') ''magenta'')
      else
        bind_exc (py_item data (- 1)) (\<lambda>d1.
        bind_exc (py_get d1 (lit ''flux'') (JInt 0)) (\<lambda>f1.
        bind_exc (py_float str2f f1) (\<lambda>today.
        bind_exc (py_len data) (\<lambda>n.
        bind_exc
          (if n > 1 then
             bind_exc (py_item data (- 2)) (\<lambda>d2.
             bind_exc (py_get d2 (lit ''flux'') (JInt 0)) (\<lambda>f2. py_float str2f f2))
           else Inr today) (\<lambda>yesterday.
        let trend = (if today > yesterday then Rising
                     else if today < yesterday then Falling else Steady)
        in Inr (Panel (FluxText today yesterday trend) (Some ''Solar Flux Index'')
                  ''magenta'')))))))"

text \<open>The generator inside \<^verbatim>\<open>sum\<close>: one lookup and one addition per region.\<close>

fun sum_spots :: "json list \<Rightarrow> json \<Rightarrow> pyexc + json" where
  "sum_spots [] acc = Inr acc"
| "sum_spots (r # rs) acc =
     (case py_get r (lit ''spot_count'') (JInt 0) of
        Inl e \<Rightarrow> Inl e
      | Inr v \<Rightarrow> (case py_add_num acc v of Inl e \<Rightarrow> Inl e | Inr acc' \<Rightarrow> sum_spots rs acc'))"

definition sunspot_panel :: "json \<Rightarrow> pyexc + panel" where
  "sunspot_panel data =
     (if \<not> truthy data then
        Inr (Panel (Message ''No sunspot data available.'') (Some ''Sunspots'') ''yellow'')
      else
        bind_exc (py_iter data) (\<lambda>rs.
        bind_exc (sum_spots rs (JInt 0)) (\<lambda>total_spots.
        bind_exc (py_len data) (\<lambda>regions.
        Inr (Panel (SunspotText regions total_spots) (Some ''Sunspot Regions'') ''yellow'')))))"

text \<open>The three event tables: one \<^verbatim>\<open>add_row\<close> per element.\<close>

fun table_loop :: "(json \<Rightarrow> pyexc + cell list) \<Rightarrow> json list \<Rightarrow> cell list list \<Rightarrow>
    pyexc + cell list list" where
  "table_loop row [] rows = Inr rows"
| "table_loop row (e # es) rows =
     (case row e of
        Inl x \<Rightarrow> Inl x
      | Inr cells \<Rightarrow>
          (case add_row rows cells of Inl x \<Rightarrow> Inl x | Inr rows' \<Rightarrow> table_loop row es rows'))"

definition cme_row :: "json \<Rightarrow> pyexc + cell list" where
  "cme_row e =
     bind_exc (py_get e (lit ''startTime'') (JStr (lit ''N/A''))) (\<lambda>startTime.
     bind_exc (py_get e (lit ''sourceLocation'') (JStr (lit ''N/A''))) (\<lambda>sourceLocation.
     bind_exc (py_get e (lit ''link'') (JStr (lit ''#''))) (\<lambda>link.
     Inr [Plain startTime, Plain sourceLocation, Link link])))"

definition cme_panel :: "json \<Rightarrow> pyexc + panel" where
  "cme_panel data =
     bind_exc
       (if \<not> truthy data then
          add_row [] [Plain (JStr (lit ''No recent CME data.'')), Plain (JStr (lit '''')),
                      Plain (JStr (lit ''''))]
        else
          bind_exc (py_slice_first 5 data) (\<lambda>head.
          bind_exc (py_iter head) (\<lambda>es. table_loop cme_row es []))) (\<lambda>rows.
     Inr (Panel (TableRows ''Recent Coronal Mass Ejections'' rows) None ''cyan''))"

definition flare_row :: "json \<Rightarrow> pyexc + cell list" where
  "flare_row f =
     bind_exc (py_get f (lit ''beginTime'') (JStr (lit ''N/A''))) (\<lambda>beginTime.
     bind_exc (py_get f (lit ''classType'') (JStr (lit ''N/A''))) (\<lambda>classType.
     bind_exc (py_get f (lit ''sourceLocation'') (JStr (lit ''N/A''))) (\<lambda>sourceLocation.
     bind_exc (py_get f (lit ''link'') (JStr (lit ''#''))) (\<lambda>link.
     Inr [Plain beginTime, Plain classType, Plain sourceLocation, Link link]))))"

definition solar_flare_panel :: "json \<Rightarrow> pyexc + panel" where
  "solar_flare_panel data =
     bind_exc
       (if \<not> truthy data then
          add_row [] [Plain (JStr (lit ''No recent flare data.'')), Plain (JStr (lit '''')),
                      Plain (JStr (lit '''')), Plain (JStr (lit ''''))]
        else bind_exc (py_iter data) (\<lambda>fs. table_loop flare_row fs [])) (\<lambda>rows.
     Inr (Panel (TableRows ''Recent Solar Flares'' rows) None ''red''))"

definition storm_row :: "json \<Rightarrow> pyexc + cell list" where
  "storm_row s =
     bind_exc (py_get s (lit ''startTime'') (JStr (lit ''N/A''))) (\<lambda>startTime.
     bind_exc (py_get s (lit ''kpIndex'') (JStr (lit ''N/A''))) (\<lambda>kpIndex.
     bind_exc (py_get s (lit ''link'') (JStr (lit ''#''))) (\<lambda>link.
     Inr [Plain startTime, Shown kpIndex, Link link])))"

definition geomag_storm_panel :: "json \<Rightarrow> pyexc + panel" where
  "geomag_storm_panel data =
     bind_exc
       (if \<not> truthy data then
          add_row [] [Plain (JStr (lit ''No recent storms found.'')), Plain (JStr (lit '''')),
                      Plain (JStr (lit ''''))]
        else bind_exc (py_iter data) (\<lambda>ss. table_loop storm_row ss [])) (\<lambda>rows.
     Inr (Panel (TableRows ''Recent Geomagnetic Storms'' rows) None ''green''))"

definition alert_line :: "json \<Rightarrow> pyexc + json \<times> json" where
  "alert_line alert =
     bind_exc (py_get alert (lit ''messageType'') (JStr (lit ''Alert''))) (\<lambda>msg_type.
     bind_exc (py_get alert (lit ''messageIssueTime'') (JStr (lit ''N/A''))) (\<lambda>issued.
     bind_exc (py_slice_first 10 issued) (\<lambda>date.
     Inr (msg_type, date))))"

definition alerts_panel :: "json \<Rightarrow> pyexc + panel" where
  "alerts_panel data =
     (if \<not> truthy data then
        Inr (Panel (Message ''No recent space weather alerts.'') (Some ''Alerts'') ''red'')
      else
        bind_exc (py_slice_first 5 data) (\<lambda>head.
        bind_exc (py_iter head) (\<lambda>as.
        bind_exc (map_exc alert_line as) (\<lambda>lines.
        Inr (Panel (AlertLines lines) (Some ''Space Weather Alerts'') ''red'')))))"

subsection \<open>The refresh loop\<close>

text \<open>
  The leaf regions of \<^verbatim>\<open>create_layout()\<close>. The layout object is the renderable given to
  \<^verbatim>\<open>Live\<close>, which repaints the screen from it at its own rate: what the layout holds
  at a moment is what the screen can show at that moment.
\<close>

datatype region =
    Header | Footer
  | Solar_wind | Geomagnetic
  | Cme | Solar_flares | Alerts
  | Sunspots | Solar_flux | Geomag_storms

type_synonym layout = "region \<Rightarrow> panel"

text \<open>The eight local variables of the loop body.\<close>

record fetched =
  wind :: json
  geomag :: json
  flux :: json
  sunspots :: json
  cmes :: json
  flares :: json
  storms :: json
  alerts :: json

text \<open>What the process has done that can be seen from outside: lines printed, pauses slept.\<close>

datatype event =
    Slept nat
  | Printed_closed
  | Printed_error pyexc

record dstate =
  vars :: fetched
  screen :: layout
  trace :: "event list"

text \<open>
  The inputs of one iteration: the clock, the answer of each of the eight endpoints,
  and where, if anywhere, the user interrupts: during the \<open>k\<close>-th statement of the
  \<^verbatim>\<open>try\<close> body (counted from 0), or during the pause in the handler of
  \<^verbatim>\<open>except Exception\<close>.
\<close>

datatype interrupt = In_body nat | In_recovery

record cycle =
  now :: pystr
  wind_res :: response
  geomag_res :: response
  flux_res :: response
  sunspot_res :: response
  cme_res :: response
  flare_res :: response
  storm_res :: response
  alert_res :: response
  ctrl_c :: "interrupt option"

text \<open>The statements of the \<^verbatim>\<open>try\<close> body, in order: eight fetches, nine updates, one sleep.\<close>

definition fetches :: "(pystr \<Rightarrow> real option) \<Rightarrow> cycle \<Rightarrow> (fetched \<Rightarrow> pyexc + fetched) list" where
  "fetches str2f c =
     [\<lambda>v. bind_exc (get_solar_wind_data str2f (wind_res c)) (\<lambda>x. Inr (v\<lparr>wind := x\<rparr>)),
      \<lambda>v. bind_exc (get_geomagnetic_index (geomag_res c)) (\<lambda>x. Inr (v\<lparr>geomag := x\<rparr>)),
      \<lambda>v. bind_exc (get_solar_flux (flux_res c)) (\<lambda>x. Inr (v\<lparr>flux := x\<rparr>)),
      \<lambda>v. bind_exc (get_sunspot_data (sunspot_res c)) (\<lambda>x. Inr (v\<lparr>sunspots := x\<rparr>)),
      \<lambda>v. bind_exc (get_cme_events (cme_res c)) (\<lambda>x. Inr (v\<lparr>cmes := x\<rparr>)),
      \<lambda>v. bind_exc (get_solar_flares (flare_res c)) (\<lambda>x. Inr (v\<lparr>flares := x\<rparr>)),
      \<lambda>v. bind_exc (get_geomagnetic_storms (storm_res c)) (\<lambda>x. Inr (v\<lparr>storms := x\<rparr>)),
      \<lambda>v. bind_exc (get_space_weather_alerts (alert_res c)) (\<lambda>x. Inr (v\<lparr>alerts := x\<rparr>))]"

definition panels ::
  "(pystr \<Rightarrow> pystr option) \<Rightarrow> (pystr \<Rightarrow> real option) \<Rightarrow> cycle \<Rightarrow>
   (region \<times> (fetched \<Rightarrow> pyexc + panel)) list" where
  "panels hhmm str2f c =
     [(Solar_wind, \<lambda>v. solar_wind_panel hhmm str2f (wind v)),
      (Geomagnetic, \<lambda>v. geomagnetic_panel str2f (geomag v)),
      (Solar_flux, \<lambda>v. solar_flux_panel str2f (flux v)),
      (Sunspots, \<lambda>v. sunspot_panel (sunspots v)),
      (Cme, \<lambda>v. cme_panel (cmes v)),
      (Solar_flares, \<lambda>v. solar_flare_panel (flares v)),
      (Geomag_storms, \<lambda>v. geomag_storm_panel (storms v)),
      (Alerts, \<lambda>v. alerts_panel (alerts v)),
      (Footer, \<lambda>v. Inr (footer (now c)))]"

definition fetch_stmt :: "(fetched \<Rightarrow> pyexc + fetched) \<Rightarrow> dstate \<Rightarrow> pyexc + dstate" where
  "fetch_stmt f s = bind_exc (f (vars s)) (\<lambda>v. Inr (s\<lparr>vars := v\<rparr>))"

definition update_stmt :: "region \<times> (fetched \<Rightarrow> pyexc + panel) \<Rightarrow> dstate \<Rightarrow> pyexc + dstate" where
  "update_stmt rb s =
     bind_exc (snd rb (vars s)) (\<lambda>p. Inr (s\<lparr>screen := (screen s)(fst rb := p)\<rparr>))"

definition sleep_stmt :: "nat \<Rightarrow> dstate \<Rightarrow> pyexc + dstate" where
  "sleep_stmt n s = Inr (s\<lparr>trace := trace s @ [Slept n]\<rparr>)"

definition try_body ::
  "(pystr \<Rightarrow> pystr option) \<Rightarrow> (pystr \<Rightarrow> real option) \<Rightarrow> cycle \<Rightarrow> (dstate \<Rightarrow> pyexc + dstate) list" where
  "try_body hhmm str2f c =
     map fetch_stmt (fetches str2f c) @ map update_stmt (panels hhmm str2f c) @ [sleep_stmt 180]"

text \<open>
  Running the statements from number \<open>k\<close> on. A statement that raises leaves the state
  as the statements before it made it; the interrupt raises \<^verbatim>\<open>KeyboardInterrupt\<close> in
  place of the statement it hits.
\<close>

fun exec :: "interrupt option \<Rightarrow> nat \<Rightarrow> (dstate \<Rightarrow> pyexc + dstate) list \<Rightarrow> dstate \<Rightarrow>
    pyexc option \<times> dstate" where
  "exec i k [] s = (None, s)"
| "exec i k (st # sts) s =
     (if i = Some (In_body k) then (Some KeyboardInterrupt, s)
      else (case st s of Inl e \<Rightarrow> (Some e, s) | Inr s' \<Rightarrow> exec i (Suc k) sts s'))"

text \<open>
  \<^verbatim>\<open>while True\<close>, run over the inputs of finitely many iterations. The loop is still
  \<open>Running\<close> when the inputs are used up; it has \<open>Closed\<close> after the \<^verbatim>\<open>break\<close>; it has
  \<open>Crashed\<close> when an exception left the \<^verbatim>\<open>try\<close> statement, and with it \<^verbatim>\<open>main\<close>.
  An exception raised inside the handler of \<^verbatim>\<open>except Exception\<close> is not handled by
  the \<^verbatim>\<open>except KeyboardInterrupt\<close> clause of the same \<^verbatim>\<open>try\<close>.
\<close>

datatype status = Running | Closed | Crashed pyexc

fun main_loop ::
  "(pystr \<Rightarrow> pystr option) \<Rightarrow> (pystr \<Rightarrow> real option) \<Rightarrow> cycle list \<Rightarrow> dstate \<Rightarrow> status \<times> dstate" where
  "main_loop hhmm str2f [] s = (Running, s)"
| "main_loop hhmm str2f (c # cs) s =
     (case exec (ctrl_c c) 0 (try_body hhmm str2f c) s of
        (None, s') \<Rightarrow> main_loop hhmm str2f cs s'
      | (Some KeyboardInterrupt, s') \<Rightarrow> (Closed, s'\<lparr>trace := trace s' @ [Printed_closed]\<rparr>)
      | (Some e, s') \<Rightarrow>
          (let s'' = s'\<lparr>trace := trace s' @ [Printed_error e]\<rparr> in
           if ctrl_c c = Some In_recovery then (Crashed KeyboardInterrupt, s'')
           else main_loop hhmm str2f cs (s''\<lparr>trace := trace s'' @ [Slept 30]\<rparr>)))"

text \<open>\<^verbatim>\<open>main()\<close> up to the loop: a fresh layout with the header and the first footer.\<close>

definition initial :: "pystr \<Rightarrow> dstate" where
  "initial now0 =
     \<lparr>vars = \<lparr>wind = JNull, geomag = JNull, flux = JNull, sunspots = JNull, cmes = JNull,
              flares = JNull, storms = JNull, alerts = JNull\<rparr>,
      screen = (\<lambda>r. Panel Placeholder None '''')(Header := header, Footer := footer now0),
      trace = []\<rparr>"

section \<open>Vocabulary and example inputs for the refresh loop\<close>

text \<open>
  The definitions of this section are not taken from the source: they are inputs on
  which the loop is run below, and the function \<open>install\<close> in which the effect of a
  cycle on the layout is stated.
\<close>

text \<open>A cycle in which every request fails and the user does nothing.\<close>

definition quiet_cycle :: "pystr \<Rightarrow> cycle" where
  "quiet_cycle t =
     \<lparr>now = t, wind_res = Failed, geomag_res = Failed, flux_res = Failed,
      sunspot_res = Failed, cme_res = Failed, flare_res = Failed, storm_res = Failed,
      alert_res = Failed, ctrl_c = None\<rparr>"

text \<open>
  A cycle in which the wind endpoint answers with one sample and the k-index
  endpoint with one element whose \<^verbatim>\<open>k_index\<close> is null.
\<close>

definition null_k_index_cycle :: "pystr \<Rightarrow> cycle" where
  "null_k_index_cycle t =
     (quiet_cycle t)\<lparr>
        wind_res := Body (JList [JDict [(lit ''time_tag'', JStr (lit ''2024-05-10 16:36:00'')),
                                        (lit ''proton_speed'', JFloat 400.5),
                                        (lit ''proton_density'', JFloat 5)]]),
        geomag_res := Body (JList [JDict [(lit ''k_index'', JNull)]])\<rparr>"

text \<open>
  A cycle in which the k-index endpoint answers with one element whose \<^verbatim>\<open>k_index\<close> is
  null and the user presses Ctrl-C during the pause that follows the error.
\<close>

definition interrupted_recovery_cycle :: "pystr \<Rightarrow> cycle" where
  "interrupted_recovery_cycle t =
     (quiet_cycle t)\<lparr>geomag_res := Body (JList [JDict [(lit ''k_index'', JNull)]]),
                      ctrl_c := Some In_recovery\<rparr>"

text \<open>A cycle in which every request fails and the user presses Ctrl-C during the sleep.\<close>

definition interrupted_sleep_cycle :: "pystr \<Rightarrow> cycle" where
  "interrupted_sleep_cycle t = (quiet_cycle t)\<lparr>ctrl_c := Some (In_body 17)\<rparr>"

text \<open>What \<^verbatim>\<open>strptime\<close> and \<^verbatim>\<open>strftime\<close> make of the time tag of that sample.\<close>

definition example_hhmm :: "pystr \<Rightarrow> pystr option" where
  "example_hhmm = map_of [(lit ''2024-05-10 16:36:00'', lit ''16:36'')]"

text \<open>
  The regions a cycle changes, and the layout after the first \<open>n\<close> of a list of
  panels have been installed.
\<close>

fun install :: "(region \<times> (fetched \<Rightarrow> pyexc + panel)) list \<Rightarrow> fetched \<Rightarrow> layout \<Rightarrow> layout" where
  "install [] v L = L"
| "install ((r, b) # bs) v L =
     install bs v (case b v of Inl _ \<Rightarrow> L | Inr p \<Rightarrow> L(r := p))"

section \<open>Basic facts about the Python operations\<close>

lemma bind_exc_Inl [simp]: "bind_exc (Inl e) f = Inl e"
  by (simp add: bind_exc_def)

lemma bind_exc_Inr [simp]: "bind_exc (Inr x) f = f x"
  by (simp add: bind_exc_def)

lemma lit_eq_iff [simp]: "lit a = lit b \<longleftrightarrow> a = b"
  unfolding lit_def by (simp add: inj_map_eq_map inj_on_def)

lemma lit_Nil [simp]: "lit [] = []"
  by (simp add: lit_def)

lemma lit_eq_Nil [simp]: "lit a = [] \<longleftrightarrow> a = []"
  by (simp add: lit_def)

lemma length_lit [simp]: "length (lit a) = length a"
  by (simp add: lit_def)

lemma map_exc_all_Inr:
  "(\<And>x. x \<in> set xs \<Longrightarrow> f x = Inr (g x)) \<Longrightarrow> map_exc f xs = Inr (map g xs)"
  by (induction xs) simp_all

lemma py_index_in_range:
  "0 \<le> i \<Longrightarrow> i < int (length xs) \<Longrightarrow> py_index xs i = Inr (xs ! nat i)"
  by (simp add: py_index_def)



lemma py_min_Min: "xs \<noteq> [] \<Longrightarrow> py_min xs = Min (set xs)"
proof (cases xs)
  case (Cons x ys)
  have "(\<lambda>v m::real. if v < m then v else m) = min"
    by (auto simp: fun_eq_iff min_def)
  then show ?thesis
    using Cons Min.set_eq_fold[of x ys] by simp
qed simp

lemma py_max_Max: "xs \<noteq> [] \<Longrightarrow> py_max xs = Max (set xs)"
proof (cases xs)
  case (Cons x ys)
  have "(\<lambda>v m::real. if m < v then v else m) = max"
    by (auto simp: fun_eq_iff max_def)
  then show ?thesis
    using Cons Max.set_eq_fold[of x ys] by simp
qed simp

lemma py_min_le: "v \<in> set xs \<Longrightarrow> py_min xs \<le> v"
  by (cases "xs = []") (simp_all add: py_min_Min)

lemma py_max_ge: "v \<in> set xs \<Longrightarrow> v \<le> py_max xs"
  by (cases "xs = []") (simp_all add: py_max_Max)

lemma py_int_floor: "0 \<le> x \<Longrightarrow> py_int x = \<lfloor>x\<rfloor>"
  by (simp add: py_int_def)

section \<open>The sparkline and the summary line\<close>

lemma level_bounds:
  fixes v lo hi :: real
  assumes "lo \<le> v" "v \<le> hi" "hi \<noteq> lo"
  shows "0 \<le> (v - lo) / (hi - lo) * 7" "(v - lo) / (hi - lo) * 7 \<le> 7"
proof -
  define a where "a = (v - lo) / (hi - lo)"
  have pos: "0 < hi - lo"
    using assms by linarith
  have "0 \<le> a"
    using assms pos by (simp add: a_def)
  then show "0 \<le> (v - lo) / (hi - lo) * 7"
    unfolding a_def[symmetric] by linarith
  have "a \<le> 1"
    using assms pos by (simp add: a_def divide_le_eq)
  then show "(v - lo) / (hi - lo) * 7 \<le> 7"
    unfolding a_def[symmetric] by linarith
qed

lemma normalize_values_nondeg:
  assumes "py_max vs \<noteq> py_min vs"
  shows "normalize_values vs 8 =
         map (\<lambda>v. \<lfloor>(v - py_min vs) / (py_max vs - py_min vs) * 7\<rfloor>) vs"
proof -
  have ne: "vs \<noteq> []"
    using assms by (cases vs) auto
  have "\<And>v. v \<in> set vs \<Longrightarrow>
      py_int ((v - py_min vs) / (py_max vs - py_min vs) * 7) =
      \<lfloor>(v - py_min vs) / (py_max vs - py_min vs) * 7\<rfloor>"
    using assms by (intro py_int_floor level_bounds(1)) (auto simp: py_min_le py_max_ge)
  then show ?thesis
    using ne assms by (simp add: normalize_values_def Let_def)
qed

lemma normalize_values_range:
  assumes "i \<in> set (normalize_values vs 8)"
  shows "0 \<le> i \<and> i \<le> 7"
proof (cases "vs = []")
  case True
  then show ?thesis
    using assms by (simp add: normalize_values_def)
next
  case ne: False
  show ?thesis
  proof (cases "py_max vs = py_min vs")
    case True
    then show ?thesis
      using assms ne by (simp add: normalize_values_def Let_def)
  next
    case False
    then obtain v where v: "v \<in> set vs"
      and i: "i = \<lfloor>(v - py_min vs) / (py_max vs - py_min vs) * 7\<rfloor>"
      using assms by (auto simp: normalize_values_nondeg)
    have "0 \<le> (v - py_min vs) / (py_max vs - py_min vs) * 7"
      and "(v - py_min vs) / (py_max vs - py_min vs) * 7 \<le> 7"
      using level_bounds[OF py_min_le[OF v] py_max_ge[OF v] False] by simp_all
    then show ?thesis
      unfolding i by (simp add: le_floor_iff floor_le_iff)
  qed
qed


lemma sparkline_eq:
  "sparkline vs = Inr (map (\<lambda>i. SPARK_CHARS ! nat i) (normalize_values vs 8))"
proof -
  have len: "int (length SPARK_CHARS) = 8"
    by (simp add: SPARK_CHARS_def)
  show ?thesis
    unfolding sparkline_def Let_def len
    by (rule map_exc_all_Inr, rule py_index_in_range)
       (use normalize_values_range len in force)+
qed








section \<open>The normalizers of data\_fetcher.py\<close>

lemma py_get_dict: "is_dict d \<Longrightarrow> py_get d k dflt = Inr (field_or d k dflt)"
  by (cases d) simp_all

lemma py_get_not_dict: "\<not> is_dict d \<Longrightarrow> py_get d k dflt = Inl AttributeError"
  by (cases d) simp_all

lemma py_float_not_interrupt: "py_float str2f v \<noteq> Inl KeyboardInterrupt"
  by (cases v) (simp_all split: option.splits)


subsection \<open>Solar wind\<close>

lemma wind_loop_step:
  "wind_loop str2f (d # ds) acc =
     wind_loop str2f ds (case qualifying_sample str2f d of None \<Rightarrow> acc | Some r \<Rightarrow> acc @ [r])"
proof (cases "is_dict d")
  case False
  then show ?thesis
    by (simp add: wind_sample_def py_get_not_dict qualifying_sample_def coerced_def)
next
  case True
  show ?thesis
  proof (cases "py_float str2f (field_or d (lit ''proton_speed'') (JInt 0))")
    case (Inl e)
    then have "e \<noteq> KeyboardInterrupt"
      using py_float_not_interrupt[of str2f] by metis
    then show ?thesis
      using True Inl
      by (cases e) (simp_all add: wind_sample_def py_get_dict qualifying_sample_def coerced_def)
  next
    case sp: (Inr speed)
    show ?thesis
    proof (cases "py_float str2f (field_or d (lit ''proton_density'') (JInt 0))")
      case (Inl e)
      then have "e \<noteq> KeyboardInterrupt"
        using py_float_not_interrupt[of str2f] by metis
      then show ?thesis
        using True Inl sp
        by (cases e) (simp_all add: wind_sample_def py_get_dict qualifying_sample_def coerced_def)
    next
      case (Inr density)
      then show ?thesis
        using True sp
        by (simp add: wind_sample_def py_get_dict qualifying_sample_def coerced_def)
    qed
  qed
qed

lemma wind_loop_eq:
  "wind_loop str2f ds acc = Inr (acc @ List.map_filter (qualifying_sample str2f) ds)"
proof (induction ds arbitrary: acc)
  case Nil
  show ?case
    by (simp add: List.map_filter_simps)
next
  case (Cons d ds)
  show ?case
    unfolding wind_loop_step Cons.IH
    by (simp add: List.map_filter_simps split: option.splits)
qed






subsection \<open>CME, flare and storm events\<close>

lemma cme_event_dict:
  "is_dict e \<Longrightarrow> cme_event e =
     Inr (JDict [(lit ''startTime'', field_or e (lit ''startTime'') JNull),
                 (lit ''sourceLocation'', field_or e (lit ''sourceLocation'') JNull),
                 (lit ''catalog'', field_or e (lit ''catalog'') JNull),
                 (lit ''link'', field_or e (lit ''link'') (JStr (lit '''')))])"
  by (simp add: cme_event_def py_get_dict)

lemma flare_event_dict:
  "is_dict f \<Longrightarrow> flare_event f =
     Inr (JDict [(lit ''beginTime'', field_or f (lit ''beginTime'') JNull),
                 (lit ''peakTime'', field_or f (lit ''peakTime'') JNull),
                 (lit ''classType'', field_or f (lit ''classType'') JNull),
                 (lit ''sourceLocation'', field_or f (lit ''sourceLocation'') JNull),
                 (lit ''link'', field_or f (lit ''link'') (JStr (lit '''')))])"
  by (simp add: flare_event_def py_get_dict)



lemma storm_kp_index_ok:
  assumes "nested_kp_ok s"
  shows "storm_kp_index s = Inr (nested_kp s)"
proof (cases s)
  case (JDict kvs)
  show ?thesis
  proof (cases "map_of kvs (lit ''allKpIndex'')")
    case None
    then show ?thesis
      using JDict by (simp add: storm_kp_index_def)
  next
    case (Some v)
    then obtain xs where v: "v = JList xs"
      using assms JDict by (cases v) simp_all
    show ?thesis
    proof (cases xs)
      case Nil
      then show ?thesis
        using JDict Some v by (simp add: storm_kp_index_def)
    next
      case (Cons k0 rest)
      then have "is_dict k0"
        using assms JDict Some v by simp
      then show ?thesis
        using JDict Some v Cons by (simp add: storm_kp_index_def py_get_dict)
    qed
  qed
qed (use assms in simp_all)

lemma storm_event_ok:
  assumes "nested_kp_ok s"
  shows "storm_event s =
     Inr (JDict [(lit ''startTime'', field_or s (lit ''startTime'') JNull),
                 (lit ''kpIndex'', nested_kp s),
                 (lit ''link'', field_or s (lit ''link'') (JStr (lit '''')))])"
proof -
  have "is_dict s"
    using assms by (cases s) simp_all
  then show ?thesis
    by (simp add: storm_event_def storm_kp_index_ok[OF assms] py_get_dict)
qed



lemma get_cme_events_list:
  assumes "es \<noteq> []" and "\<forall>e \<in> set es. is_dict e"
  shows "get_cme_events (Body (JList es)) =
     Inr (JList (first_n 5 (map (\<lambda>e.
       JDict [(lit ''startTime'', field_or e (lit ''startTime'') JNull),
              (lit ''sourceLocation'', field_or e (lit ''sourceLocation'') JNull),
              (lit ''catalog'', field_or e (lit ''catalog'') JNull),
              (lit ''link'', field_or e (lit ''link'') (JStr (lit '''')))]) es)))"
proof -
  note m = map_exc_all_Inr[of es cme_event, OF cme_event_dict]
  show ?thesis
    using assms by (simp add: get_cme_events_def make_request_def m)
qed

lemma get_solar_flares_list:
  assumes "es \<noteq> []" and "\<forall>e \<in> set es. is_dict e"
  shows "get_solar_flares (Body (JList es)) =
     Inr (JList (first_n 5 (map (\<lambda>f.
       JDict [(lit ''beginTime'', field_or f (lit ''beginTime'') JNull),
              (lit ''peakTime'', field_or f (lit ''peakTime'') JNull),
              (lit ''classType'', field_or f (lit ''classType'') JNull),
              (lit ''sourceLocation'', field_or f (lit ''sourceLocation'') JNull),
              (lit ''link'', field_or f (lit ''link'') (JStr (lit '''')))]) es)))"
proof -
  note m = map_exc_all_Inr[of es flare_event, OF flare_event_dict]
  show ?thesis
    using assms by (simp add: get_solar_flares_def make_request_def m)
qed

lemma get_geomagnetic_storms_list:
  assumes "es \<noteq> []" and "\<forall>s \<in> set es. nested_kp_ok s"
  shows "get_geomagnetic_storms (Body (JList es)) =
     Inr (JList (first_n 5 (map (\<lambda>s.
       JDict [(lit ''startTime'', field_or s (lit ''startTime'') JNull),
              (lit ''kpIndex'', nested_kp s),
              (lit ''link'', field_or s (lit ''link'') (JStr (lit '''')))]) es)))"
proof -
  note m = map_exc_all_Inr[of es storm_event, OF storm_event_ok]
  show ?thesis
    using assms by (simp add: get_geomagnetic_storms_def make_request_def m)
qed

text \<open>
  C6, as stated, fails: a key missing from an element is not replaced by
  \<^verbatim>\<open>"N/A"\<close> or by the empty string in the normalized record. An event with a start
  time and a link but no \<^verbatim>\<open>sourceLocation\<close> and no \<^verbatim>\<open>catalog\<close> is normalized to a
  record that holds \<^verbatim>\<open>None\<close> under both keys.
\<close>

theorem cme_missing_key_counterexample:
  "get_cme_events (Body (JList
      [JDict [(lit ''startTime'', JStr (lit ''2024-05-10T16:36Z'')),
              (lit ''link'', JStr (lit ''https://example.org/1''))]])) =
     Inr (JList
      [JDict [(lit ''startTime'', JStr (lit ''2024-05-10T16:36Z'')),
              (lit ''sourceLocation'', JNull),
              (lit ''catalog'', JNull),
              (lit ''link'', JStr (lit ''https://example.org/1''))]]) \<and>
   JNull \<noteq> JStr (lit ''N/A'') \<and> JNull \<noteq> JStr (lit '''')"
  by (simp add: get_cme_events_def make_request_def cme_event_def first_n_def)

text \<open>
  C6, amended. For a non-empty CME, flare or storm response whose elements are JSON
  objects (for storms, with a well-formed \<^verbatim>\<open>allKpIndex\<close>), no element raises an
  error; each field of a normalized record is the value stored under the key, and
  for a missing key it is \<^verbatim>\<open>None\<close>, except \<^verbatim>\<open>link\<close>, for which it is the empty string.
  The normalized list is then cut to its first 5 elements.
\<close>

theorem nasa_events_missing_key_is_none:
  assumes "es \<noteq> []" and "\<forall>e \<in> set es. is_dict e"
  shows
   "get_cme_events (Body (JList es)) =
      Inr (JList (first_n 5 (map (\<lambda>e.
        JDict [(lit ''startTime'', field_or e (lit ''startTime'') JNull),
               (lit ''sourceLocation'', field_or e (lit ''sourceLocation'') JNull),
               (lit ''catalog'', field_or e (lit ''catalog'') JNull),
               (lit ''link'', field_or e (lit ''link'') (JStr (lit '''')))]) es))) \<and>
    get_solar_flares (Body (JList es)) =
      Inr (JList (first_n 5 (map (\<lambda>f.
        JDict [(lit ''beginTime'', field_or f (lit ''beginTime'') JNull),
               (lit ''peakTime'', field_or f (lit ''peakTime'') JNull),
               (lit ''classType'', field_or f (lit ''classType'') JNull),
               (lit ''sourceLocation'', field_or f (lit ''sourceLocation'') JNull),
               (lit ''link'', field_or f (lit ''link'') (JStr (lit '''')))]) es))) \<and>
    ((\<forall>s \<in> set es. nested_kp_ok s) \<longrightarrow>
     get_geomagnetic_storms (Body (JList es)) =
      Inr (JList (first_n 5 (map (\<lambda>s.
        JDict [(lit ''startTime'', field_or s (lit ''startTime'') JNull),
               (lit ''kpIndex'', nested_kp s),
               (lit ''link'', field_or s (lit ''link'') (JStr (lit '''')))]) es)))) \<and>
    (\<forall>kvs k dflt. map_of kvs k = None \<longrightarrow> field_or (JDict kvs) k dflt = dflt)"
  using get_cme_events_list[OF assms] get_solar_flares_list[OF assms]
    get_geomagnetic_storms_list[OF assms(1)]
  by simp

theorem nasa_events_missing_key_is_none_witness:
  "[JDict []] \<noteq> [] \<and> is_dict (JDict []) \<and> nested_kp_ok (JDict []) \<and>
   get_cme_events (Body (JList [JDict []])) =
     Inr (JList [JDict [(lit ''startTime'', JNull), (lit ''sourceLocation'', JNull),
                        (lit ''catalog'', JNull), (lit ''link'', JStr (lit ''''))]]) \<and>
   get_solar_flares (Body (JList [JDict []])) =
     Inr (JList [JDict [(lit ''beginTime'', JNull), (lit ''peakTime'', JNull),
                        (lit ''classType'', JNull), (lit ''sourceLocation'', JNull),
                        (lit ''link'', JStr (lit ''''))]]) \<and>
   get_geomagnetic_storms (Body (JList [JDict []])) =
     Inr (JList [JDict [(lit ''startTime'', JNull), (lit ''kpIndex'', JNull),
                        (lit ''link'', JStr (lit ''''))]])"
  using nasa_events_missing_key_is_none[of "[JDict []]"]
  by (simp add: first_n_def)

subsection \<open>Alerts\<close>




subsection \<open>K-index and flux\<close>

text \<open>
  C8, as stated, fails on the empty list: the last 20 elements of \<^verbatim>\<open>[]\<close> are \<^verbatim>\<open>[]\<close>,
  but the k-index normalizer answers \<^verbatim>\<open>None\<close>.
\<close>

theorem k_index_empty_list_counterexample:
  "get_geomagnetic_index (Body (JList [])) = Inr JNull \<and>
   get_geomagnetic_index (Body (JList [])) \<noteq> Inr (JList (last_n 20 []))"
  by (simp add: get_geomagnetic_index_def make_request_def)

text \<open>
  C8, amended. The k-index normalizer returns \<^verbatim>\<open>None\<close> for every input that is not a
  list and for the empty list, and for every non-empty list its last 20 elements,
  unchanged and in order: a list of 25 elements gives exactly its elements 6 to 25.
  The flux normalizer does the same with a window of 5.
\<close>

theorem windowed_feeds_rule:
  "(\<not> is_list (make_request res) \<longrightarrow>
      get_geomagnetic_index res = Inr JNull \<and> get_solar_flux res = Inr JNull) \<and>
   get_geomagnetic_index (Body (JList [])) = Inr JNull \<and>
   get_solar_flux (Body (JList [])) = Inr JNull \<and>
   (ds \<noteq> [] \<longrightarrow>
      get_geomagnetic_index (Body (JList ds)) = Inr (JList (drop (length ds - 20) ds)) \<and>
      get_solar_flux (Body (JList ds)) = Inr (JList (drop (length ds - 5) ds))) \<and>
   (length ds = 25 \<longrightarrow>
      get_geomagnetic_index (Body (JList ds)) = Inr (JList (drop 5 ds)) \<and>
      length (drop 5 ds) = 20)"
proof (intro conjI impI)
  assume "\<not> is_list (make_request res)"
  then show "get_geomagnetic_index res = Inr JNull" and "get_solar_flux res = Inr JNull"
    by (cases "make_request res"; simp add: get_geomagnetic_index_def get_solar_flux_def)+
next
  show "get_geomagnetic_index (Body (JList [])) = Inr JNull"
    and "get_solar_flux (Body (JList [])) = Inr JNull"
    by (simp_all add: get_geomagnetic_index_def get_solar_flux_def make_request_def)
next
  assume "ds \<noteq> []"
  then show "get_geomagnetic_index (Body (JList ds)) = Inr (JList (drop (length ds - 20) ds))"
    and "get_solar_flux (Body (JList ds)) = Inr (JList (drop (length ds - 5) ds))"
    by (simp_all add: get_geomagnetic_index_def get_solar_flux_def make_request_def last_n_def)
next
  assume l: "length ds = 25"
  then have "ds \<noteq> []"
    by auto
  then show "get_geomagnetic_index (Body (JList ds)) = Inr (JList (drop 5 ds))"
    using l by (simp add: get_geomagnetic_index_def make_request_def last_n_def)
  show "length (drop 5 ds) = 20"
    using l by simp
qed

theorem windowed_feeds_rule_witness:
  "\<not> is_list (make_request (Body (JDict [(lit ''error'', JStr (lit ''x''))]))) \<and>
   get_geomagnetic_index (Body (JDict [(lit ''error'', JStr (lit ''x''))])) = Inr JNull \<and>
   get_solar_flux (Body (JDict [(lit ''error'', JStr (lit ''x''))])) = Inr JNull \<and>
   map JInt [1, 2, 3, 4, 5, 6, 7, 8, 9, 10, 11, 12, 13, 14, 15, 16, 17, 18, 19, 20,
     21, 22, 23, 24, 25] \<noteq> [] \<and>
   length (map JInt [1, 2, 3, 4, 5, 6, 7, 8, 9, 10, 11, 12, 13, 14, 15, 16, 17, 18, 19, 20,
     21, 22, 23, 24, 25]) = 25 \<and>
   get_geomagnetic_index (Body (JList (map JInt
     [1, 2, 3, 4, 5, 6, 7, 8, 9, 10, 11, 12, 13, 14, 15, 16, 17, 18, 19, 20,
      21, 22, 23, 24, 25]))) =
     Inr (JList (map JInt [6, 7, 8, 9, 10, 11, 12, 13, 14, 15, 16, 17, 18, 19, 20,
      21, 22, 23, 24, 25])) \<and>
   get_solar_flux (Body (JList (map JInt
     [1, 2, 3, 4, 5, 6, 7, 8, 9, 10, 11, 12, 13, 14, 15, 16, 17, 18, 19, 20,
      21, 22, 23, 24, 25]))) =
     Inr (JList (map JInt [21, 22, 23, 24, 25]))"
  using windowed_feeds_rule[of "Body (JDict [(lit ''error'', JStr (lit ''x''))])"
      "map JInt [1, 2, 3, 4, 5, 6, 7, 8, 9, 10, 11, 12, 13, 14, 15, 16, 17, 18, 19, 20,
        21, 22, 23, 24, 25]"]
  by (simp add: make_request_def)

subsection \<open>A response that is a JSON object\<close>

text \<open>
  C1. The CME operation raises on a response that is a truthy value other than a
  list. For the JSON object \<^verbatim>\<open>{"error": "x"}\<close> the guard \<^verbatim>\<open>if not data\<close> lets the value
  through, the loop runs over the keys of the object, and \<^verbatim>\<open>e.get\<close> on the string
  \<^verbatim>\<open>"error"\<close> raises \<^verbatim>\<open>AttributeError\<close>, which nothing in the operation catches; the
  flare and storm operations do the same and the alerts operation raises on the
  slice. The NOAA operations, which test \<^verbatim>\<open>isinstance(data, list)\<close>, return \<^verbatim>\<open>None\<close>
  on the same response.
\<close>

theorem nasa_operations_raise_on_object:
  "get_cme_events (Body (JDict [(lit ''error'', JStr (lit ''x''))])) = Inl AttributeError \<and>
   get_solar_flares (Body (JDict [(lit ''error'', JStr (lit ''x''))])) = Inl AttributeError \<and>
   get_geomagnetic_storms (Body (JDict [(lit ''error'', JStr (lit ''x''))])) = Inl AttributeError \<and>
   get_space_weather_alerts (Body (JDict [(lit ''error'', JStr (lit ''x''))])) = Inl TypeError \<and>
   get_solar_wind_data str2f (Body (JDict [(lit ''error'', JStr (lit ''x''))])) = Inr JNull \<and>
   get_geomagnetic_index (Body (JDict [(lit ''error'', JStr (lit ''x''))])) = Inr JNull \<and>
   get_solar_flux (Body (JDict [(lit ''error'', JStr (lit ''x''))])) = Inr JNull"
  by (simp add: get_cme_events_def get_solar_flares_def get_geomagnetic_storms_def
      get_space_weather_alerts_def get_solar_wind_data_def get_geomagnetic_index_def
      get_solar_flux_def make_request_def cme_event_def flare_event_def storm_event_def
      storm_kp_index_def)

section \<open>The refresh loop\<close>

lemma exec_append_None:
  "exec i k xs s = (None, s') \<Longrightarrow> exec i k (xs @ ys) s = exec i (k + length xs) ys s'"
proof (induction xs arbitrary: k s)
  case Nil
  then show ?case by simp
next
  case (Cons st sts)
  show ?case
  proof (cases "i = Some (In_body k)")
    case True
    then show ?thesis using Cons.prems by simp
  next
    case False
    show ?thesis
    proof (cases "st s")
      case (Inl e)
      then show ?thesis using Cons.prems False by simp
    next
      case (Inr s1)
      then have "exec i (Suc k) sts s1 = (None, s')"
        using Cons.prems False by simp
      from Cons.IH[OF this] show ?thesis
        using False Inr by simp
    qed
  qed
qed

lemma exec_append_Some:
  "exec i k xs s = (Some e, s') \<Longrightarrow> exec i k (xs @ ys) s = (Some e, s')"
proof (induction xs arbitrary: k s)
  case Nil
  then show ?case by simp
next
  case (Cons st sts)
  show ?case
  proof (cases "i = Some (In_body k)")
    case True
    then show ?thesis using Cons.prems by simp
  next
    case False
    show ?thesis
    proof (cases "st s")
      case (Inl x)
      then show ?thesis using Cons.prems False by simp
    next
      case (Inr s1)
      then have "exec i (Suc k) sts s1 = (Some e, s')"
        using Cons.prems False by simp
      from Cons.IH[OF this] show ?thesis
        using False Inr by simp
    qed
  qed
qed

lemma exec_fetch_Cons:
  "exec i k (fetch_stmt f # sts) s =
     (if i = Some (In_body k) then (Some KeyboardInterrupt, s)
      else (case f (vars s) of
              Inl e \<Rightarrow> (Some e, s)
            | Inr v \<Rightarrow> exec i (Suc k) sts (s\<lparr>vars := v\<rparr>)))"
  by (simp add: fetch_stmt_def split: sum.splits)

lemma exec_update_Cons:
  "exec i k (update_stmt (rg, b) # sts) s =
     (if i = Some (In_body k) then (Some KeyboardInterrupt, s)
      else (case b (vars s) of
              Inl e \<Rightarrow> (Some e, s)
            | Inr p \<Rightarrow> exec i (Suc k) sts (s\<lparr>screen := (screen s)(rg := p)\<rparr>)))"
  by (simp add: update_stmt_def split: sum.splits)

lemma exec_fetches:
  "exec i k (map fetch_stmt fs) s = (r, s') \<Longrightarrow> screen s' = screen s \<and> trace s' = trace s"
proof (induction fs arbitrary: k s)
  case Nil
  then show ?case by simp
next
  case (Cons f fs)
  have step: "exec i k (fetch_stmt f # map fetch_stmt fs) s = (r, s')"
    using Cons.prems by simp
  show ?case
  proof (cases "i = Some (In_body k)")
    case True
    then show ?thesis using step unfolding exec_fetch_Cons by simp
  next
    case False
    show ?thesis
    proof (cases "f (vars s)")
      case (Inl e)
      then show ?thesis using step False unfolding exec_fetch_Cons by simp
    next
      case (Inr v)
      then have "exec i (Suc k) (map fetch_stmt fs) (s\<lparr>vars := v\<rparr>) = (r, s')"
        using step False unfolding exec_fetch_Cons by simp
      from Cons.IH[OF this] show ?thesis by simp
    qed
  qed
qed

lemma exec_updates:
  "exec i k (map update_stmt bs) s = (r, s') \<Longrightarrow>
     vars s' = vars s \<and> trace s' = trace s \<and>
     (\<exists>n \<le> length bs.
        screen s' = install (take n bs) (vars s) (screen s) \<and>
        list_all (\<lambda>rb. \<not> isl (snd rb (vars s))) (take n bs) \<and>
        (r = None \<longrightarrow> n = length bs) \<and> (r \<noteq> None \<longrightarrow> n < length bs))"
proof (induction bs arbitrary: k s)
  case Nil
  then show ?case by simp
next
  case (Cons rb bs)
  obtain rg b where rb: "rb = (rg, b)" by (cases rb)
  have step: "exec i k (update_stmt (rg, b) # map update_stmt bs) s = (r, s')"
    using Cons.prems rb by simp
  show ?case
  proof (cases "i = Some (In_body k)")
    case True
    then have "r \<noteq> None" "s' = s" using step unfolding exec_update_Cons by auto
    then show ?thesis by (intro conjI exI[of _ 0]) simp_all
  next
    case False
    show ?thesis
    proof (cases "b (vars s)")
      case (Inl e)
      then have "r \<noteq> None" "s' = s" using step False unfolding exec_update_Cons by auto
      then show ?thesis by (intro conjI exI[of _ 0]) simp_all
    next
      case (Inr p)
      let ?s1 = "s\<lparr>screen := (screen s)(rg := p)\<rparr>"
      have "exec i (Suc k) (map update_stmt bs) ?s1 = (r, s')"
        using step False Inr unfolding exec_update_Cons by simp
      from Cons.IH[OF this] obtain n where vt: "vars s' = vars ?s1" "trace s' = trace ?s1"
        and n: "n \<le> length bs"
        "screen s' = install (take n bs) (vars ?s1) (screen ?s1)"
        "list_all (\<lambda>rb. \<not> isl (snd rb (vars ?s1))) (take n bs)"
        "r = None \<longrightarrow> n = length bs" "r \<noteq> None \<longrightarrow> n < length bs"
        by blast
      have sel: "vars ?s1 = vars s" "trace ?s1 = trace s" "screen ?s1 = (screen s)(rg := p)"
        by simp_all
      show ?thesis
        using n vt rb Inr unfolding sel by (intro conjI exI[of _ "Suc n"]) simp_all
    qed
  qed
qed

lemmas fetch_defs = get_solar_wind_data_def get_geomagnetic_index_def get_solar_flux_def
  get_sunspot_data_def get_cme_events_def get_solar_flares_def get_geomagnetic_storms_def
  get_space_weather_alerts_def make_request_def

lemmas panel_defs = solar_wind_panel_def geomagnetic_panel_def solar_flux_panel_def
  sunspot_panel_def cme_panel_def solar_flare_panel_def geomag_storm_panel_def
  alerts_panel_def add_row_def

lemmas stmt_defs = try_body_def fetches_def panels_def fetch_stmt_def update_stmt_def
  sleep_stmt_def

lemma length_fetches: "length (fetches str2f c) = 8"
  by (simp add: fetches_def)

lemma length_panels: "length (panels hhmm str2f c) = 9"
  by (simp add: panels_def)

lemma exec_sleep:
  "exec i k [sleep_stmt d] s = (r, s') \<Longrightarrow> screen s' = screen s \<and> vars s' = vars s"
  by (auto simp: sleep_stmt_def split: if_splits)

lemma exec_sleep_None:
  "exec i k [sleep_stmt d] s = (None, s') \<Longrightarrow> s' = s\<lparr>trace := trace s @ [Slept d]\<rparr>"
  by (auto simp: sleep_stmt_def split: if_splits)

lemma exec_cycle:
  assumes "exec i k (map fetch_stmt fs @ map update_stmt bs @ [sleep_stmt d]) s = (r, s')"
  shows "\<exists>n \<le> length bs.
      screen s' = install (take n bs) (vars s') (screen s) \<and>
      list_all (\<lambda>rb. \<not> isl (snd rb (vars s'))) (take n bs) \<and>
      (r = None \<longrightarrow> n = length bs) \<and>
      (0 < n \<longrightarrow> exec i k (map fetch_stmt fs) s = (None, s\<lparr>vars := vars s'\<rparr>))"
proof -
  obtain r1 s1 where f: "exec i k (map fetch_stmt fs) s = (r1, s1)"
    by (cases "exec i k (map fetch_stmt fs) s")
  have same1: "screen s1 = screen s" "trace s1 = trace s"
    using exec_fetches[OF f] by simp_all
  show ?thesis
  proof (cases r1)
    case (Some e)
    then have "exec i k (map fetch_stmt fs @ map update_stmt bs @ [sleep_stmt d]) s = (Some e, s1)"
      using f by (simp add: exec_append_Some)
    then have "s' = s1" "r = Some e"
      using assms by simp_all
    then show ?thesis
      using same1 by (intro exI[of _ 0]) simp
  next
    case None
    have s1: "s1 = s\<lparr>vars := vars s1\<rparr>"
      using same1 by (simp add: dstate.equality)
    have rest: "exec i (k + length (map fetch_stmt fs)) (map update_stmt bs @ [sleep_stmt d]) s1 = (r, s')"
      using exec_append_None[of i k "map fetch_stmt fs" s s1] f None assms by simp
    obtain r2 s2 where u: "exec i (k + length (map fetch_stmt fs)) (map update_stmt bs) s1 = (r2, s2)"
      by (cases "exec i (k + length (map fetch_stmt fs)) (map update_stmt bs) s1")
    from exec_updates[OF u] obtain n where n: "n \<le> length bs"
      "screen s2 = install (take n bs) (vars s1) (screen s1)"
      "list_all (\<lambda>rb. \<not> isl (snd rb (vars s1))) (take n bs)"
      "r2 = None \<longrightarrow> n = length bs" "r2 \<noteq> None \<longrightarrow> n < length bs"
      and v2: "vars s2 = vars s1"
      by blast
    show ?thesis
    proof (cases r2)
      case (Some e)
      then have "exec i (k + length (map fetch_stmt fs)) (map update_stmt bs @ [sleep_stmt d]) s1 = (Some e, s2)"
        using u by (simp add: exec_append_Some)
      then have "s' = s2" "r = Some e"
        using rest by simp_all
      then show ?thesis
        using n v2 same1 f None s1 by (intro exI[of _ n]) auto
    next
      case None2: None
      have "exec i (k + length (map fetch_stmt fs) + length (map update_stmt bs)) [sleep_stmt d] s2 = (r, s')"
        using exec_append_None[of i _ "map update_stmt bs" s1 s2 "[sleep_stmt d]"] u None2 rest by simp
      from exec_sleep[OF this] have "screen s' = screen s2" "vars s' = vars s2"
        by simp_all
      then show ?thesis
        using n v2 same1 f None s1 None2 by (intro exI[of _ "length bs"]) auto
    qed
  qed
qed

text \<open>
  C10, amended. In every cycle, whatever the inputs and wherever it stops, the
  regions are changed one at a time and in a fixed order: solar wind, geomagnetic,
  solar flux, sunspots, CME, flares, storms, alerts, footer. After the cycle the
  layout is the layout from before the cycle with the first \<open>n\<close> of these nine
  installed, each computed from the values this cycle fetched. When the cycle runs
  to its end, \<open>n\<close> is 9; when it stops earlier, the other regions keep what they
  showed before. No region is changed unless all eight fetches have returned.
\<close>

theorem cycle_installs_panels_one_by_one:
  "\<exists>n \<le> 9.
     screen (snd (exec i 0 (try_body hhmm str2f c) s)) =
       install (take n (panels hhmm str2f c))
         (vars (snd (exec i 0 (try_body hhmm str2f c) s))) (screen s) \<and>
     list_all (\<lambda>rb. \<not> isl (snd rb (vars (snd (exec i 0 (try_body hhmm str2f c) s)))))
       (take n (panels hhmm str2f c)) \<and>
     (fst (exec i 0 (try_body hhmm str2f c) s) = None \<longrightarrow> n = 9) \<and>
     (0 < n \<longrightarrow>
        exec i 0 (map fetch_stmt (fetches str2f c)) s =
          (None, s\<lparr>vars := vars (snd (exec i 0 (try_body hhmm str2f c) s))\<rparr>))"
proof -
  obtain r s' where e: "exec i 0 (try_body hhmm str2f c) s = (r, s')"
    by (cases "exec i 0 (try_body hhmm str2f c) s")
  then have "exec i 0 (map fetch_stmt (fetches str2f c) @
      map update_stmt (panels hhmm str2f c) @ [sleep_stmt 180]) s = (r, s')"
    by (simp add: try_body_def)
  from exec_cycle[OF this] show ?thesis
    unfolding e length_panels by simp
qed

theorem cycle_installs_panels_one_by_one_witness:
  "fst (exec None 0 (try_body example_hhmm example_str2f (quiet_cycle (lit ''t1'')))
          (initial (lit ''t0''))) = None \<and>
   screen (snd (exec None 0 (try_body example_hhmm example_str2f (quiet_cycle (lit ''t1'')))
          (initial (lit ''t0'')))) =
     install (panels example_hhmm example_str2f (quiet_cycle (lit ''t1'')))
       (vars (snd (exec None 0 (try_body example_hhmm example_str2f (quiet_cycle (lit ''t1'')))
          (initial (lit ''t0'')))))
       (screen (initial (lit ''t0''))) \<and>
   exec None 0 (map fetch_stmt (fetches example_str2f (quiet_cycle (lit ''t1''))))
       (initial (lit ''t0'')) =
     (None, (initial (lit ''t0''))\<lparr>vars :=
        vars (snd (exec None 0 (try_body example_hhmm example_str2f (quiet_cycle (lit ''t1'')))
          (initial (lit ''t0''))))\<rparr>)"
proof -
  define c where "c = quiet_cycle (lit ''t1'')"
  define s where "s = initial (lit ''t0'')"
  define X where "X = exec None 0 (try_body example_hhmm example_str2f c) s"
  define P where "P = panels example_hhmm example_str2f c"
  define F where "F = exec None 0 (map fetch_stmt (fetches example_str2f c)) s"
  have fin: "fst X = None"
    unfolding X_def c_def s_def
    by (simp add: quiet_cycle_def initial_def stmt_defs fetch_defs panel_defs)
  have len: "length P = 9"
    unfolding P_def by (rule length_panels)
  have "\<exists>n \<le> 9. screen (snd X) = install (take n P) (vars (snd X)) (screen s) \<and>
      list_all (\<lambda>rb. \<not> isl (snd rb (vars (snd X)))) (take n P) \<and>
      (fst X = None \<longrightarrow> n = 9) \<and> (0 < n \<longrightarrow> F = (None, s\<lparr>vars := vars (snd X)\<rparr>))"
    unfolding X_def P_def F_def
    by (rule cycle_installs_panels_one_by_one)
  then obtain n where H: "n \<le> 9 \<and> screen (snd X) = install (take n P) (vars (snd X)) (screen s) \<and>
      list_all (\<lambda>rb. \<not> isl (snd rb (vars (snd X)))) (take n P) \<and>
      (fst X = None \<longrightarrow> n = 9) \<and> (0 < n \<longrightarrow> F = (None, s\<lparr>vars := vars (snd X)\<rparr>))"
    ..
  from H have scr: "screen (snd X) = install (take n P) (vars (snd X)) (screen s)"
    by (elim conjE)
  from H have all: "fst X = None \<longrightarrow> n = 9"
    by (elim conjE)
  from H have fetched: "0 < n \<longrightarrow> F = (None, s\<lparr>vars := vars (snd X)\<rparr>)"
    by (elim conjE)
  from all fin have n9: "n = 9"
    by (rule mp)
  have tk: "take n P = P"
    unfolding n9 using len by simp
  have f: "F = (None, s\<lparr>vars := vars (snd X)\<rparr>)"
    using fetched n9 by simp
  have "fst X = None \<and> screen (snd X) = install P (vars (snd X)) (screen s) \<and>
      F = (None, s\<lparr>vars := vars (snd X)\<rparr>)"
    using fin scr f unfolding tk by (intro conjI)
  then show ?thesis
    unfolding X_def P_def F_def c_def s_def .
qed

text \<open>
  C2. A cycle in which a panel function raises (here \<^verbatim>\<open>geomagnetic_panel\<close>, on a null
  \<^verbatim>\<open>k_index\<close>) is followed by the error line and the pause of the handler. When the
  user interrupts during that pause, the \<^verbatim>\<open>KeyboardInterrupt\<close> is raised inside the
  handler of \<^verbatim>\<open>except Exception\<close>, where the \<^verbatim>\<open>except KeyboardInterrupt\<close> clause of the
  same \<^verbatim>\<open>try\<close> does not apply: the loop is left by the exception, and the closing line
  is never printed. The same interrupt during the 180-unit sleep of the \<^verbatim>\<open>try\<close> body
  prints the closing line and ends the loop by \<^verbatim>\<open>break\<close>.
\<close>

theorem interrupt_in_recovery_pause_crashes:
  "fst (main_loop hhmm str2f [interrupted_recovery_cycle t] (initial t0)) =
     Crashed KeyboardInterrupt \<and>
   trace (snd (main_loop hhmm str2f [interrupted_recovery_cycle t] (initial t0))) =
     [Printed_error TypeError] \<and>
   fst (main_loop hhmm str2f [interrupted_sleep_cycle t] (initial t0)) = Closed \<and>
   trace (snd (main_loop hhmm str2f [interrupted_sleep_cycle t] (initial t0))) =
     [Printed_closed]"
  by (simp add: interrupted_recovery_cycle_def interrupted_sleep_cycle_def quiet_cycle_def
      initial_def stmt_defs fetch_defs panel_defs last_n_def py_index_def)

text \<open>
  C10, as stated, fails. In a first cycle every request fails, and all panels show
  their placeholder. In the second cycle the wind sample arrives and the k-index
  element has a null \<^verbatim>\<open>k_index\<close>: the solar wind region is updated, then
  \<^verbatim>\<open>geomagnetic_panel\<close> raises \<^verbatim>\<open>TypeError\<close>. During the 30-unit pause that follows, the
  layout on display holds the solar wind panel of the second cycle next to the
  geomagnetic panel and the footer of the first.
\<close>

theorem half_updated_frame_counterexample:
  "fst (main_loop example_hhmm example_str2f
          [quiet_cycle (lit ''t1''), null_k_index_cycle (lit ''t2'')] (initial (lit ''t0''))) =
     Running \<and>
   trace (snd (main_loop example_hhmm example_str2f
          [quiet_cycle (lit ''t1''), null_k_index_cycle (lit ''t2'')] (initial (lit ''t0'')))) =
     [Slept 180, Printed_error TypeError, Slept 30] \<and>
   screen (snd (main_loop example_hhmm example_str2f
          [quiet_cycle (lit ''t1''), null_k_index_cycle (lit ''t2'')] (initial (lit ''t0''))))
      Solar_wind =
     Panel (WindText (PlotBlock [9605] 400.5 400.5 400.5 (JStr (lit ''16:36''))
                        (JStr (lit ''16:36''))) 400.5 5)
       (Some ''Solar Wind (ACE)'') ''blue'' \<and>
   screen (snd (main_loop example_hhmm example_str2f
          [quiet_cycle (lit ''t1''), null_k_index_cycle (lit ''t2'')] (initial (lit ''t0''))))
      Geomagnetic =
     Panel (Message ''No K-index data available.'') (Some ''Geomagnetic Activity'') ''yellow'' \<and>
   screen (snd (main_loop example_hhmm example_str2f
          [quiet_cycle (lit ''t1''), null_k_index_cycle (lit ''t2'')] (initial (lit ''t0''))))
      Footer = footer (lit ''t1'') \<and>
   screen (snd (main_loop example_hhmm example_str2f [quiet_cycle (lit ''t1'')]
          (initial (lit ''t0'')))) Solar_wind =
     Panel (Message ''No solar wind data available.'') (Some ''Solar Wind'') ''red'' \<and>
   footer (lit ''t1'') \<noteq> footer (lit ''t2'')"
  by (simp add: null_k_index_cycle_def quiet_cycle_def initial_def stmt_defs
      fetch_defs panel_defs wind_loop_eq List.map_filter_simps qualifying_sample_def coerced_def
      last_n_def create_wind_speed_plot_def plot_summary_def sparkline_eq normalize_values_def
      SPARK_CHARS_def py_index_def example_hhmm_def footer_def)

text \<open>
  Two facts about one iteration. An exception other than \<^verbatim>\<open>KeyboardInterrupt\<close> in the
  \<^verbatim>\<open>try\<close> body, with no interrupt during the pause, is followed by the error line
  and the 30-unit pause, without the 180-unit sleep, and the loop goes on with the
  next iteration. A \<^verbatim>\<open>KeyboardInterrupt\<close> in the \<^verbatim>\<open>try\<close> body prints the closing line
  and ends the loop.
\<close>

lemma exec_raises_keeps_trace:
  assumes "exec i 0 (try_body hhmm str2f c) s = (Some e, s')"
  shows "trace s' = trace s"
proof -
  let ?F = "map fetch_stmt (fetches str2f c)"
  let ?U = "map update_stmt (panels hhmm str2f c)"
  have whole: "exec i 0 (?F @ ?U @ [sleep_stmt 180]) s = (Some e, s')"
    using assms by (simp add: try_body_def)
  obtain r1 s1 where f: "exec i 0 ?F s = (r1, s1)"
    by (cases "exec i 0 ?F s")
  have t1: "trace s1 = trace s"
    using exec_fetches[OF f] by simp
  show ?thesis
  proof (cases r1)
    case (Some x)
    then show ?thesis
      using exec_append_Some[of i 0 ?F s x s1] f whole t1 by simp
  next
    case None
    then have rest: "exec i (0 + length ?F) (?U @ [sleep_stmt 180]) s1 = (Some e, s')"
      using exec_append_None[of i 0 ?F s s1] f whole by simp
    obtain r2 s2 where u: "exec i (0 + length ?F) ?U s1 = (r2, s2)"
      by (cases "exec i (0 + length ?F) ?U s1")
    have t2: "trace s2 = trace s1"
      using exec_updates[OF u] by simp
    show ?thesis
    proof (cases r2)
      case (Some x)
      then show ?thesis
        using exec_append_Some[of i _ ?U s1 x s2] u rest t1 t2 by simp
    next
      case None2: None
      then have "exec i (0 + length ?F + length ?U) [sleep_stmt 180] s2 = (Some e, s')"
        using exec_append_None[of i _ ?U s1 s2] u rest by simp
      then have "s' = s2"
        by (auto simp: sleep_stmt_def split: if_splits)
      then show ?thesis
        using t1 t2 by simp
    qed
  qed
qed

lemma recovery_pause_then_next_cycle:
  assumes "exec (ctrl_c c) 0 (try_body hhmm str2f c) s = (Some e, s')"
    and "e \<noteq> KeyboardInterrupt" and "ctrl_c c \<noteq> Some In_recovery"
  shows "main_loop hhmm str2f (c # cs) s =
     main_loop hhmm str2f cs (s'\<lparr>trace := trace s @ [Printed_error e, Slept 30]\<rparr>)"
  using assms exec_raises_keeps_trace[OF assms(1)]
  by (cases e) (simp_all add: Let_def)

lemma interrupt_in_body_closes:
  assumes "exec (ctrl_c c) 0 (try_body hhmm str2f c) s = (Some KeyboardInterrupt, s')"
  shows "main_loop hhmm str2f (c # cs) s = (Closed, s'\<lparr>trace := trace s @ [Printed_closed]\<rparr>)"
  using assms exec_raises_keeps_trace[OF assms] by simp

section \<open>Only an interrupt ends the loop\<close>

text \<open>
  No operation of the model raises \<^verbatim>\<open>KeyboardInterrupt\<close> by itself, so the exception
  reaches the loop only when the user interrupts; as long as no iteration is
  interrupted the loop keeps running, whatever the endpoints answer.
\<close>

lemma bind_quiet:
  "m \<noteq> Inl KeyboardInterrupt \<Longrightarrow> (\<And>x. f x \<noteq> Inl KeyboardInterrupt) \<Longrightarrow>
   bind_exc m f \<noteq> Inl KeyboardInterrupt"
  by (cases m) simp_all

lemma py_get_quiet: "py_get d k dflt \<noteq> Inl KeyboardInterrupt"
  by (cases d) simp_all

lemma py_iter_quiet: "py_iter v \<noteq> Inl KeyboardInterrupt"
  by (cases v) simp_all

lemma py_index_quiet: "py_index xs i \<noteq> Inl KeyboardInterrupt"
  by (simp add: py_index_def)

lemma py_item_quiet: "py_item v i \<noteq> Inl KeyboardInterrupt"
  by (cases v) (simp_all add: py_index_quiet bind_quiet)

lemma py_len_quiet: "py_len v \<noteq> Inl KeyboardInterrupt"
  by (cases v) simp_all

lemma py_format_f_quiet: "py_format_f v \<noteq> Inl KeyboardInterrupt"
  by (cases v) simp_all

lemma py_add_num_quiet: "py_add_num a b \<noteq> Inl KeyboardInterrupt"
  by (cases a; cases b) simp_all

lemma py_slice_first_quiet: "py_slice_first n v \<noteq> Inl KeyboardInterrupt"
  by (cases v) simp_all

lemma py_slice_last_quiet: "py_slice_last n v \<noteq> Inl KeyboardInterrupt"
  by (cases v) simp_all

lemma py_add_str_quiet: "py_add_str v t \<noteq> Inl KeyboardInterrupt"
  by (cases v) simp_all

lemma py_first_quiet: "py_first v \<noteq> Inl KeyboardInterrupt"
  by (cases v) (simp_all split: list.splits)

lemma add_row_quiet: "add_row rows cells \<noteq> Inl KeyboardInterrupt"
  by (simp add: add_row_def)

lemma map_exc_quiet:
  "(\<And>x. f x \<noteq> Inl KeyboardInterrupt) \<Longrightarrow> map_exc f xs \<noteq> Inl KeyboardInterrupt"
  by (induction xs) (auto split: sum.splits)

lemma table_loop_quiet:
  "(\<And>x. row x \<noteq> Inl KeyboardInterrupt) \<Longrightarrow> table_loop row es rows \<noteq> Inl KeyboardInterrupt"
  by (induction es arbitrary: rows) (auto split: sum.splits simp: add_row_quiet)

lemma sum_spots_quiet: "sum_spots rs acc \<noteq> Inl KeyboardInterrupt"
  by (induction rs arbitrary: acc) (auto split: sum.splits simp: py_get_quiet py_add_num_quiet)

lemma time_label_quiet: "time_label hhmm v \<noteq> Inl KeyboardInterrupt"
  by (cases v) (simp_all add: py_slice_first_quiet split: option.splits)

lemma plot_loop_quiet: "plot_loop hhmm str2f es acc \<noteq> Inl KeyboardInterrupt"
proof (induction es arbitrary: acc)
  case Nil
  show ?case by simp
next
  case (Cons e es)
  obtain tms speeds where acc: "acc = (tms, speeds)" by (cases acc)
  show ?case
    unfolding acc
    using Cons.IH py_get_quiet time_label_quiet
    by (auto split: sum.splits simp del: time_label.simps)
qed

lemma Inr_quiet: "Inr x \<noteq> Inl KeyboardInterrupt"
  by simp

lemma if_quiet:
  "(c \<Longrightarrow> a \<noteq> Inl KeyboardInterrupt) \<Longrightarrow> (\<not> c \<Longrightarrow> b \<noteq> Inl KeyboardInterrupt) \<Longrightarrow>
   (if c then a else b) \<noteq> Inl KeyboardInterrupt"
  by simp

lemma case_prod_quiet:
  "(\<And>a b. f a b \<noteq> Inl KeyboardInterrupt) \<Longrightarrow>
   (case p of (a, b) \<Rightarrow> f a b) \<noteq> Inl KeyboardInterrupt"
  by (cases p) simp

lemma sparkline_quiet: "sparkline vs \<noteq> Inl KeyboardInterrupt"
  by (simp add: sparkline_eq)

lemmas quiet_rules = bind_quiet Inr_quiet if_quiet case_prod_quiet py_get_quiet py_iter_quiet
  py_index_quiet py_item_quiet py_len_quiet py_format_f_quiet py_add_num_quiet
  py_slice_first_quiet py_slice_last_quiet py_add_str_quiet py_first_quiet add_row_quiet
  map_exc_quiet table_loop_quiet sum_spots_quiet time_label_quiet plot_loop_quiet
  py_float_not_interrupt sparkline_quiet

lemma plot_summary_quiet: "plot_summary tms speeds \<noteq> Inl KeyboardInterrupt"
  unfolding plot_summary_def Let_def
  by (intro quiet_rules)

lemma create_wind_speed_plot_quiet:
  "create_wind_speed_plot hhmm str2f wd \<noteq> Inl KeyboardInterrupt"
  unfolding create_wind_speed_plot_def
  by (intro quiet_rules plot_summary_quiet)

lemma noaa_quiet:
  "get_solar_wind_data str2f r1 \<noteq> Inl KeyboardInterrupt"
  "get_geomagnetic_index r2 \<noteq> Inl KeyboardInterrupt"
  "get_solar_flux r3 \<noteq> Inl KeyboardInterrupt"
  "get_sunspot_data r4 \<noteq> Inl KeyboardInterrupt"
  by (simp_all add: get_solar_wind_data_def get_geomagnetic_index_def get_solar_flux_def
      get_sunspot_data_def wind_loop_eq split: json.splits)

lemma nasa_quiet:
  "get_cme_events r5 \<noteq> Inl KeyboardInterrupt"
  "get_solar_flares r6 \<noteq> Inl KeyboardInterrupt"
  "get_geomagnetic_storms r7 \<noteq> Inl KeyboardInterrupt"
  "get_space_weather_alerts r8 \<noteq> Inl KeyboardInterrupt"
  unfolding get_cme_events_def get_solar_flares_def get_geomagnetic_storms_def
    get_space_weather_alerts_def cme_event_def flare_event_def storm_event_def
    storm_kp_index_def alert_event_def Let_def
  by (intro quiet_rules)+

lemma panels_quiet:
  "solar_wind_panel hhmm str2f d1 \<noteq> Inl KeyboardInterrupt"
  "geomagnetic_panel str2f d2 \<noteq> Inl KeyboardInterrupt"
  "solar_flux_panel str2f d3 \<noteq> Inl KeyboardInterrupt"
  "sunspot_panel d4 \<noteq> Inl KeyboardInterrupt"
  "cme_panel d5 \<noteq> Inl KeyboardInterrupt"
  "solar_flare_panel d6 \<noteq> Inl KeyboardInterrupt"
  "geomag_storm_panel d7 \<noteq> Inl KeyboardInterrupt"
  "alerts_panel d8 \<noteq> Inl KeyboardInterrupt"
  unfolding solar_wind_panel_def geomagnetic_panel_def solar_flux_panel_def sunspot_panel_def
    cme_panel_def solar_flare_panel_def geomag_storm_panel_def alerts_panel_def
    cme_row_def flare_row_def storm_row_def alert_line_def Let_def
  by (intro quiet_rules create_wind_speed_plot_quiet)+

lemma bind_exc_eq_Inl:
  "bind_exc m f = Inl e \<longleftrightarrow> m = Inl e \<or> (\<exists>x. m = Inr x \<and> f x = Inl e)"
  by (cases m) auto

lemma try_body_quiet:
  assumes "st \<in> set (try_body hhmm str2f c)"
  shows "st s \<noteq> Inl KeyboardInterrupt"
proof -
  have "sleep_stmt 180 s \<noteq> Inl KeyboardInterrupt"
    by (simp add: sleep_stmt_def)
  moreover have "fetch_stmt g s \<noteq> Inl KeyboardInterrupt" if "g \<in> set (fetches str2f c)" for g
    using that unfolding fetches_def fetch_stmt_def
    by (auto simp: bind_exc_eq_Inl noaa_quiet nasa_quiet)
  moreover have "update_stmt rb s \<noteq> Inl KeyboardInterrupt" if "rb \<in> set (panels hhmm str2f c)" for rb
    using that unfolding panels_def update_stmt_def
    by (auto simp: bind_exc_eq_Inl panels_quiet)
  ultimately show ?thesis
    using assms unfolding try_body_def by auto
qed

lemma exec_interrupt_only:
  assumes "exec i k sts s = (Some KeyboardInterrupt, s')"
    and "\<And>st s. st \<in> set sts \<Longrightarrow> st s \<noteq> Inl KeyboardInterrupt"
  shows "\<exists>j. i = Some (In_body j)"
  using assms
proof (induction sts arbitrary: k s)
  case Nil
  then show ?case by simp
next
  case (Cons st sts)
  show ?case
  proof (cases "i = Some (In_body k)")
    case True
    then show ?thesis by blast
  next
    case False
    show ?thesis
    proof (cases "st s")
      case (Inl e)
      then have "e = KeyboardInterrupt"
        using Cons.prems(1) False by simp
      then show ?thesis
        using Inl Cons.prems(2)[of st s] by simp
    next
      case (Inr s1)
      then have "exec i (Suc k) sts s1 = (Some KeyboardInterrupt, s')"
        using Cons.prems(1) False by simp
      then show ?thesis
        using Cons.IH Cons.prems(2) by simp
    qed
  qed
qed

lemma loop_runs_on_without_interrupt:
  assumes "\<forall>c \<in> set cs. ctrl_c c = None"
  shows "fst (main_loop hhmm str2f cs s) = Running"
  using assms
proof (induction cs arbitrary: s)
  case Nil
  show ?case by simp
next
  case (Cons c cs)
  have no: "ctrl_c c = None" and rest: "\<forall>c \<in> set cs. ctrl_c c = None"
    using Cons.prems by simp_all
  obtain r s' where e: "exec (ctrl_c c) 0 (try_body hhmm str2f c) s = (r, s')"
    by (cases "exec (ctrl_c c) 0 (try_body hhmm str2f c) s")
  show ?case
  proof (cases r)
    case None
    then show ?thesis
      using e Cons.IH[OF rest] by simp
  next
    case (Some x)
    have "x \<noteq> KeyboardInterrupt"
    proof
      assume "x = KeyboardInterrupt"
      then have "\<exists>j. ctrl_c c = Some (In_body j)"
        using exec_interrupt_only[of "ctrl_c c" 0 "try_body hhmm str2f c" s s'] e Some
          try_body_quiet by blast
      then show False
        using no by simp
    qed
    then show ?thesis
      using e Some no Cons.IH[OF rest] by (cases x) (simp_all add: Let_def)
  qed
qed

end
